theory Spec2Isabelle
  imports Complex_Main
begin

section \<open>Vectors and numpy helpers\<close>

text \<open>
  The retrieval engine of \<^verbatim>\<open>backend/app/retriever.py\<close> works on numpy arrays of
  float32. A vector is a list of reals and a matrix a list of rows; float rounding is not
  part of the model, every arithmetic operation is the exact one.
\<close>

type_synonym vec = "real list"

definition dot :: "vec \<Rightarrow> vec \<Rightarrow> real" where
  "dot a b = sum_list (map2 (*) a b)"

definition l2norm :: "vec \<Rightarrow> real" where
  "l2norm v = sqrt (sum_list (map (\<lambda>x. x * x) v))"

text \<open>
  \<^verbatim>\<open>_normalize\<close>: every row is divided by its norm plus \<^verbatim>\<open>1e-10\<close>.
\<close>

definition normalize_rows :: "vec list \<Rightarrow> vec list" where
  "normalize_rows X = map (\<lambda>v. map (\<lambda>x. x / (l2norm v + 1 / 10 ^ 10)) v) X"

text \<open>
  \<^verbatim>\<open>np.argmax\<close>: the position of the first occurrence of the maximum. On an empty
  sequence numpy raises; the selection loop calls it on a non-empty pool only.
\<close>

fun np_argmax :: "real list \<Rightarrow> nat" where
  "np_argmax [] = 0"
| "np_argmax [x] = 0"
| "np_argmax (x # xs) = (let j = np_argmax xs in if x < xs ! j then Suc j else 0)"

text \<open>\<^verbatim>\<open>list.index\<close>: the position of the first occurrence.\<close>

fun list_index :: "'a list \<Rightarrow> 'a \<Rightarrow> nat" where
  "list_index [] y = 0"
| "list_index (x # xs) y = (if x = y then 0 else Suc (list_index xs y))"

text \<open>\<^verbatim>\<open>del xs[p]\<close>, \<^verbatim>\<open>xs.pop(p)\<close> and \<^verbatim>\<open>np.delete(xs, p, axis=0)\<close>.\<close>

definition delete_at :: "nat \<Rightarrow> 'a list \<Rightarrow> 'a list" where
  "delete_at p xs = take p xs @ drop (Suc p) xs"

section \<open>The MMR selection loop\<close>

text \<open>
  The loop of \<^verbatim>\<open>VectorStore.search\<close> (lines 146 to 169) and the loop of
  \<^verbatim>\<open>VectorStore.search_advanced\<close> (lines 251 to 273) are the same statements. The
  state is the five lists the loop reads and updates: \<^verbatim>\<open>selected\<close>,
  \<^verbatim>\<open>selected_scores\<close>, and the three parallel pools \<^verbatim>\<open>cand_idxs\<close>,
  \<^verbatim>\<open>cand_vecs\<close> and \<^verbatim>\<open>candidates\<close>.
\<close>

record mmr_state =
  selected :: "int list"
  selected_scores :: "real list"
  cand_idxs :: "int list"
  cand_vecs :: "vec list"
  candidates :: "(int \<times> real) list"

text \<open>
  The rows of \<^verbatim>\<open>cand_vecs\<close> of the items already selected, looked up in the
  current pool: \<^verbatim>\<open>cand_vecs[[cand_idxs.index(si) for si in selected if si in cand_idxs]]\<close>.
\<close>

definition selected_vecs :: "mmr_state \<Rightarrow> vec list" where
  "selected_vecs st =
     map (\<lambda>si. cand_vecs st ! list_index (cand_idxs st) si)
       (filter (\<lambda>si. si \<in> set (cand_idxs st)) (selected st))"

definition diversity :: "mmr_state \<Rightarrow> real list" where
  "diversity st =
     (let svs = selected_vecs st in
      if concat svs = [] then replicate (length (cand_idxs st)) 0
      else map (\<lambda>v. Max (set (map (\<lambda>sv. dot v sv) svs))) (cand_vecs st))"

definition mmr_scores :: "real \<Rightarrow> vec \<Rightarrow> mmr_state \<Rightarrow> real list" where
  "mmr_scores mmr_lambda q_vec st =
     map2 (\<lambda>s d. mmr_lambda * s + (1 - mmr_lambda) * (1 - d))
       (map (\<lambda>v. dot v q_vec) (cand_vecs st)) (diversity st)"

definition chosen_pos :: "real \<Rightarrow> vec \<Rightarrow> mmr_state \<Rightarrow> nat" where
  "chosen_pos mmr_lambda q_vec st =
     (if selected st = [] then np_argmax (map snd (candidates st))
      else np_argmax (mmr_scores mmr_lambda q_vec st))"

definition chosen_global_idx :: "real \<Rightarrow> vec \<Rightarrow> mmr_state \<Rightarrow> int" where
  "chosen_global_idx mmr_lambda q_vec st =
     (if selected st = [] then fst (candidates st ! chosen_pos mmr_lambda q_vec st)
      else cand_idxs st ! chosen_pos mmr_lambda q_vec st)"

definition mmr_step :: "real \<Rightarrow> vec \<Rightarrow> mmr_state \<Rightarrow> mmr_state" where
  "mmr_step mmr_lambda q_vec st =
     (let p = chosen_pos mmr_lambda q_vec st in
      \<lparr> selected = selected st @ [chosen_global_idx mmr_lambda q_vec st],
        selected_scores = selected_scores st @ [snd (candidates st ! p)],
        cand_idxs = delete_at p (cand_idxs st),
        cand_vecs = delete_at p (cand_vecs st),
        candidates = delete_at p (candidates st) \<rparr>)"

definition mmr_continue :: "int \<Rightarrow> mmr_state \<Rightarrow> bool" where
  "mmr_continue top_k st \<longleftrightarrow>
     int (length (selected st)) < min top_k (int (length (candidates st))) \<and> cand_idxs st \<noteq> []"

function mmr_loop :: "int \<Rightarrow> real \<Rightarrow> vec \<Rightarrow> mmr_state \<Rightarrow> mmr_state" where
  "mmr_loop top_k mmr_lambda q_vec st =
     (if mmr_continue top_k st then mmr_loop top_k mmr_lambda q_vec (mmr_step mmr_lambda q_vec st)
      else st)"
  by pat_completeness auto
termination
  by (relation "measure (\<lambda>(top_k, mmr_lambda, q_vec, st). nat (top_k - int (length (selected st))))")
     (auto simp: mmr_continue_def mmr_step_def Let_def)

declare mmr_loop.simps [simp del]

text \<open>The state before the first iteration, for a candidate list and its vectors.\<close>

definition mmr_init :: "(int \<times> real) list \<Rightarrow> vec list \<Rightarrow> mmr_state" where
  "mmr_init cands vecs =
     \<lparr> selected = [], selected_scores = [], cand_idxs = map fst cands,
       cand_vecs = vecs, candidates = cands \<rparr>"

definition mmr_select :: "int \<Rightarrow> real \<Rightarrow> vec \<Rightarrow> (int \<times> real) list \<Rightarrow> vec list \<Rightarrow> (int \<times> real) list" where
  "mmr_select top_k mmr_lambda q_vec cands vecs =
     (let st = mmr_loop top_k mmr_lambda q_vec (mmr_init cands vecs)
      in zip (selected st) (selected_scores st))"

section \<open>Records, files and errors\<close>

text \<open>
  A raise of the source is a value of \<open>error\<close>, by the class of the exception.
  \<^verbatim>\<open>FileNotFoundError\<close> carries its message (what \<^verbatim>\<open>str\<close> gives): it is raised by
  \<^verbatim>\<open>_load_chunks\<close> and by \<^verbatim>\<open>_ensure_loaded\<close> with their own messages, and by
  \<^verbatim>\<open>open\<close> on a file that does not exist. \<^verbatim>\<open>IndexError\<close> is a list index out of
  range, \<^verbatim>\<open>AssertionError\<close> an \<^verbatim>\<open>assert\<close> of the source or of the index library,
  \<^verbatim>\<open>TypeError\<close> a call with a keyword the callee does not accept. An exception of the
  embedding provider and an exception of the ingestion step are of the collaborator's
  classes: \<open>EncodeError\<close> and \<open>IngestError\<close> stand for them.
\<close>

datatype error =
    FileNotFoundError string
  | IndexError
  | AssertionError
  | TypeError
  | EncodeError
  | IngestError

definition chunks_missing :: string where
  "chunks_missing = ''chunks.jsonl not found; run ingestion first''"

definition index_missing :: string where
  "index_missing = ''FAISS index missing; build the index first''"

text \<open>The message of the error that \<^verbatim>\<open>open\<close> raises for a path that does not exist.\<close>

definition no_such_file :: "string \<Rightarrow> string" where
  "no_such_file path =
     ''[Errno 2] No such file or directory: '' @ [CHR 0x27] @ path @ [CHR 0x27]"

definition bind_err :: "error + 'a \<Rightarrow> ('a \<Rightarrow> error + 'b) \<Rightarrow> error + 'b" where
  "bind_err m f = (case m of Inl e \<Rightarrow> Inl e | Inr x \<Rightarrow> f x)"

text \<open>Python list indexing by an integer: negative indices count from the end.\<close>

definition py_get :: "'a list \<Rightarrow> int \<Rightarrow> error + 'a" where
  "py_get xs i =
     (let n = int (length xs); j = (if i < 0 then n + i else i)
      in if 0 \<le> j \<and> j < n then Inr (xs ! nat j) else Inl IndexError)"

fun map_err :: "('a \<Rightarrow> error + 'b) \<Rightarrow> 'a list \<Rightarrow> error + 'b list" where
  "map_err f [] = Inr []"
| "map_err f (x # xs) =
     (case f x of Inl e \<Rightarrow> Inl e
      | Inr y \<Rightarrow> (case map_err f xs of Inl e \<Rightarrow> Inl e | Inr ys \<Rightarrow> Inr (y # ys)))"

text \<open>
  The chunk and section records of the line-delimited files. \<^verbatim>\<open>id\<close> and \<^verbatim>\<open>text\<close>
  of a chunk are read with \<^verbatim>\<open>item["id"]\<close> and \<^verbatim>\<open>item["text"]\<close>, the other fields
  with \<^verbatim>\<open>item.get\<close>, which gives \<^verbatim>\<open>None\<close> for a missing key.
\<close>

record chunk =
  c_id :: string
  c_text :: string
  c_section_id :: "string option"
  c_section_title :: "string option"
  c_page_start :: "int option"
  c_page_end :: "int option"

record section_rec =
  s_id :: "string option"
  s_text :: string

record search_result =
  r_id :: string
  r_text :: string
  r_section_title :: "string option"
  r_page_start :: "int option"
  r_page_end :: "int option"
  r_score :: real
  r_rerank_score :: "real option"

text \<open>
  Modelled from the spec: \<^verbatim>\<open>faiss.IndexFlatIP\<close> is a library outside the repository.
  Section 4.1 describes it: an ordered sequence of vectors of one dimension, and a search
  that returns the top \<open>k\<close> pairs of row index and inner product, in descending order of
  inner product, ties by lowest row. The asserts and the padding are those of the library's
  Python wrapper: it asserts that the query has the index's dimension and that \<open>k\<close> is
  positive, and pads a result shorter than \<open>k\<close> with the label \<open>-1\<close> and the lowest
  float32. The order in which the library lists rows of equal inner product is its own;
  no theorem below depends on it.
\<close>

record faiss_index =
  ix_d :: nat
  ix_rows :: "vec list"

definition ntotal :: "faiss_index \<Rightarrow> nat" where
  "ntotal ix = length (ix_rows ix)"

definition flt_lowest :: real where
  "flt_lowest = - (2 ^ 128 - 2 ^ 104)"

definition index_search :: "faiss_index \<Rightarrow> vec \<Rightarrow> int \<Rightarrow> error + (int \<times> real) list" where
  "index_search ix q k =
     (if length q \<noteq> ix_d ix \<or> k \<le> 0 then Inl AssertionError
      else
        let scored = map (\<lambda>(i, v). (int i, dot v q)) (enumerate 0 (ix_rows ix));
            ranked = sort_key (\<lambda>c. - snd c) scored
        in Inr (take (nat k) ranked @ replicate (nat k - length ranked) (- 1, flt_lowest)))"

text \<open>
  Modelled from the spec: \<^verbatim>\<open>IndexFlatIP(dim)\<close> followed by \<^verbatim>\<open>index.add(emb)\<close>; the
  wrapper asserts that every row has the index's dimension.
\<close>

definition index_build :: "nat \<Rightarrow> vec list \<Rightarrow> error + faiss_index" where
  "index_build dm emb =
     (if \<forall>v \<in> set emb. length v = dm then Inr \<lparr> ix_d = dm, ix_rows = emb \<rparr>
      else Inl AssertionError)"

text \<open>
  The \<^verbatim>\<open>meta.json\<close> dictionary: keys to JSON values.
\<close>

datatype jval = JInt int | JStr string | JNull

text \<open>
  The storage directory: each file is \<open>None\<close> when it does not exist, otherwise its
  parsed content.
\<close>

record fs_state =
  chunks_file :: "chunk list option"
  sections_file :: "section_rec list option"
  index_file :: "faiss_index option"
  store_file :: "chunk list option"
  s_index_file :: "faiss_index option"
  s_store_file :: "section_rec list option"
  meta_file :: "(string \<rightharpoonup> jval) option"

text \<open>
  The fields of a \<^verbatim>\<open>VectorStore\<close> object that its methods read or write: the storage
  directory, the provider's dimension and the two cached index handles.
\<close>

record vector_store =
  vs_storage_dir :: string
  vs_dim :: nat
  vs_index :: "faiss_index option"
  vs_s_index :: "faiss_index option"

text \<open>
  \<^verbatim>\<open>os.path.join\<close> of a directory and a relative file name, as the constructor uses
  it for each path of the store.
\<close>

definition path_join :: "string \<Rightarrow> string \<Rightarrow> string" where
  "path_join dir name =
     (if dir = [] \<or> last dir = CHR ''/'' then dir @ name else dir @ ''/'' @ name)"

definition index_path :: "vector_store \<Rightarrow> string" where
  "index_path vs = path_join (vs_storage_dir vs) ''index.faiss''"

definition s_index_path :: "vector_store \<Rightarrow> string" where
  "s_index_path vs = path_join (vs_storage_dir vs) ''index_sections.faiss''"

definition store_path :: "vector_store \<Rightarrow> string" where
  "store_path vs = path_join (vs_storage_dir vs) ''store.jsonl''"

text \<open>
  The fields of \<^verbatim>\<open>settings\<close> that the retrieval engine reads.
\<close>

record settings =
  EMBEDDING_MODEL_NAME :: string
  RERANK :: bool
  HIERARCHICAL_RETRIEVAL :: bool
  SECTION_TOP_K :: int

text \<open>
  The embedding provider (\<^verbatim>\<open>self.model.encode\<close>) is an external collaborator. A
  provider gives, for the \<open>n\<close>-th call of \<^verbatim>\<open>encode\<close> within one operation, either
  \<open>None\<close> (the call raises) or the function from a text to its embedding; the call
  returns one row for each text.
\<close>

type_synonym provider = "nat \<Rightarrow> (string \<Rightarrow> vec) option"

definition encode :: "provider \<Rightarrow> nat \<Rightarrow> string list \<Rightarrow> error + vec list" where
  "encode pr n texts = (case pr n of None \<Rightarrow> Inl EncodeError | Some f \<Rightarrow> Inr (map f texts))"

text \<open>
  The cross-encoder is an external collaborator as well: \<open>None\<close> when constructing it or
  its \<^verbatim>\<open>predict\<close> raises, otherwise the scores of the pairs.
\<close>

type_synonym reranker = "(string \<times> string) list \<Rightarrow> real list option"

section \<open>Loading the index\<close>

text \<open>
  \<^verbatim>\<open>_ensure_loaded\<close>: the chunk index is read from its file when no handle is cached,
  and the section index when no handle is cached and its file exists.
\<close>

definition ensure_loaded :: "vector_store \<Rightarrow> fs_state \<Rightarrow> error + vector_store" where
  "ensure_loaded vs fs =
     bind_err
       (case vs_index vs of
          Some ix \<Rightarrow> Inr vs
        | None \<Rightarrow>
            (case index_file fs of
               None \<Rightarrow> Inl (FileNotFoundError index_missing)
             | Some ix \<Rightarrow> Inr (vs\<lparr>vs_index := Some ix\<rparr>)))
       (\<lambda>vs1.
          Inr (case vs_s_index vs1 of
                 Some six \<Rightarrow> vs1
               | None \<Rightarrow>
                   (case s_index_file fs of
                      None \<Rightarrow> vs1
                    | Some six \<Rightarrow> vs1\<lparr>vs_s_index := Some six\<rparr>)))"

text \<open>\<^verbatim>\<open>_load_store\<close> opens the store file.\<close>

definition load_store :: "vector_store \<Rightarrow> fs_state \<Rightarrow> error + chunk list" where
  "load_store vs fs =
     (case store_file fs of
        None \<Rightarrow> Inl (FileNotFoundError (no_such_file (store_path vs)))
      | Some store \<Rightarrow> Inr store)"

section \<open>Search\<close>

text \<open>The number of rows requested from the chunk index by each of the two searches.\<close>

definition request_k :: "int \<Rightarrow> int \<Rightarrow> faiss_index \<Rightarrow> int" where
  "request_k top_k mmr_candidates ix = min (max (top_k * 4) mmr_candidates) (int (ntotal ix))"

definition request_k_advanced :: "int \<Rightarrow> int \<Rightarrow> faiss_index \<Rightarrow> int" where
  "request_k_advanced top_k mmr_candidates ix =
     min (max (top_k * 8) (mmr_candidates * 2)) (int (ntotal ix))"

text \<open>\<^verbatim>\<open>[(int(i), float(s)) for i, s in zip(idxs, scores) if i != -1]\<close>\<close>

definition drop_sentinel :: "(int \<times> real) list \<Rightarrow> (int \<times> real) list" where
  "drop_sentinel raw = filter (\<lambda>(i, s). i \<noteq> - 1) raw"

definition cand_texts :: "chunk list \<Rightarrow> (int \<times> real) list \<Rightarrow> error + string list" where
  "cand_texts store cands =
     map_err (\<lambda>(i, s). bind_err (py_get store i) (\<lambda>item. Inr (c_text item))) cands"

text \<open>The result built from a record of the store and the raw score of its row.\<close>

definition make_result :: "chunk \<Rightarrow> real \<Rightarrow> search_result" where
  "make_result item score =
     \<lparr> r_id = c_id item, r_text = c_text item,
       r_section_title = c_section_title item,
       r_page_start = c_page_start item, r_page_end = c_page_end item,
       r_score = score, r_rerank_score = None \<rparr>"

definition build_results :: "chunk list \<Rightarrow> (int \<times> real) list \<Rightarrow> error + search_result list" where
  "build_results store sel =
     map_err (\<lambda>(i, score). bind_err (py_get store i) (\<lambda>item. Inr (make_result item score))) sel"

text \<open>
  The optional rerank: every result paired with a score gets it as \<^verbatim>\<open>rerank_score\<close>,
  then the list is sorted by \<^verbatim>\<open>rerank_score\<close> (by \<^verbatim>\<open>score\<close> where there is none),
  descending and stable; any failure leaves the order as it was.
\<close>

definition rerank_key :: "search_result \<Rightarrow> real" where
  "rerank_key r = (case r_rerank_score r of Some s \<Rightarrow> s | None \<Rightarrow> r_score r)"

definition apply_rerank :: "settings \<Rightarrow> reranker \<Rightarrow> string \<Rightarrow> search_result list \<Rightarrow> search_result list" where
  "apply_rerank cfg rr query results =
     (if RERANK cfg \<and> results \<noteq> [] then
        (case rr (map (\<lambda>r. (query, r_text r)) results) of
           None \<Rightarrow> results
         | Some rerank_scores \<Rightarrow>
             sort_key (\<lambda>r. - rerank_key r)
               (map2 (\<lambda>r s. r\<lparr>r_rerank_score := Some s\<rparr>) results rerank_scores
                  @ drop (length rerank_scores) results))
      else results)"

text \<open>
  What both searches do with their candidates (lines 139 to 198 of \<^verbatim>\<open>search\<close>, lines
  244 to 301 of \<^verbatim>\<open>search_advanced\<close>, the same statements): the texts of the
  candidates are embedded again and normalized, the loop selects, the results are built
  in the order of the selection, and the optional rerank reorders them.
\<close>

definition select_results ::
  "settings \<Rightarrow> provider \<Rightarrow> reranker \<Rightarrow> string \<Rightarrow> int \<Rightarrow> real \<Rightarrow> vec \<Rightarrow> chunk list \<Rightarrow>
   (int \<times> real) list \<Rightarrow> error + search_result list" where
  "select_results cfg pr rr query top_k mmr_lambda q_vec store cands =
     bind_err (cand_texts store cands) (\<lambda>texts.
     bind_err (encode pr 1 texts) (\<lambda>cv.
     bind_err (build_results store
                 (mmr_select top_k mmr_lambda q_vec cands (normalize_rows cv)))
       (\<lambda>results. Inr (apply_rerank cfg rr query results))))"

text \<open>
  \<^verbatim>\<open>VectorStore.search\<close>. The result is the store object after the call (the index
  handles it has cached) and either the error raised or the list returned.
\<close>

definition search ::
  "settings \<Rightarrow> provider \<Rightarrow> reranker \<Rightarrow> vector_store \<Rightarrow> fs_state \<Rightarrow>
   string \<Rightarrow> int \<Rightarrow> real \<Rightarrow> int \<Rightarrow> vector_store \<times> (error + search_result list)" where
  "search cfg pr rr vs fs query top_k mmr_lambda mmr_candidates =
     (case ensure_loaded vs fs of
        Inl e \<Rightarrow> (vs, Inl e)
      | Inr vs1 \<Rightarrow>
          (vs1,
           case vs_index vs1 of
             None \<Rightarrow> Inl AssertionError
           | Some ix \<Rightarrow>
               bind_err (encode pr 0 [query]) (\<lambda>qm.
               let q = normalize_rows qm in
               bind_err (index_search ix (hd q) (request_k top_k mmr_candidates ix)) (\<lambda>raw.
               bind_err (load_store vs1 fs) (\<lambda>store.
               select_results cfg pr rr query top_k mmr_lambda (hd q) store
                 (drop_sentinel raw))))))"

text \<open>\<^verbatim>\<open>_encode_query\<close> and the query embedding of \<^verbatim>\<open>search_advanced\<close>.\<close>

definition encode_query :: "provider \<Rightarrow> nat \<Rightarrow> string list \<Rightarrow> error + vec list" where
  "encode_query pr n texts = bind_err (encode pr n texts) (\<lambda>q. Inr (normalize_rows q))"

text \<open>\<^verbatim>\<open>X.mean(axis=0, keepdims=True)\<close>: the one row of the column means.\<close>

definition mean_axis0 :: "vec list \<Rightarrow> vec list" where
  "mean_axis0 X =
     [map (\<lambda>j. sum_list (map (\<lambda>row. row ! j) X) / real (length X)) [0..<length (hd X)]]"

definition query_vec :: "provider \<Rightarrow> string \<Rightarrow> string option \<Rightarrow> error + vec list" where
  "query_vec pr query hyde =
     (case hyde of
        None \<Rightarrow> encode_query pr 0 [query]
      | Some h \<Rightarrow>
          if h \<noteq> [] then bind_err (encode_query pr 0 [query, h]) (\<lambda>m. Inr (mean_axis0 m))
          else encode_query pr 0 [query])"

text \<open>
  The allowed-section set: the ids of the top sections of the section index, when
  hierarchical retrieval is on and both the section index and the section store exist.
\<close>

definition allowed_sections ::
  "bool \<Rightarrow> int \<Rightarrow> vector_store \<Rightarrow> fs_state \<Rightarrow> vec \<Rightarrow> error + string set option" where
  "allowed_sections use_h sec_k vs fs q =
     (case vs_s_index vs of
        None \<Rightarrow> Inr None
      | Some six \<Rightarrow>
          (case s_store_file fs of
             None \<Rightarrow> Inr None
           | Some sec_store \<Rightarrow>
               if \<not> use_h then Inr None
               else
                 bind_err (index_search six q (min sec_k (int (ntotal six)))) (\<lambda>raw.
                 bind_err (map_err (\<lambda>i. bind_err (py_get sec_store i) (\<lambda>s. Inr (s_id s)))
                            (filter (\<lambda>i. i \<noteq> - 1 \<and> i < int (length sec_store)) (map fst raw)))
                   (\<lambda>s_ids.
                      Inr (if s_ids \<noteq> [] then
                             Some (set (concat (map (\<lambda>sid. case sid of
                                                   None \<Rightarrow> []
                                                 | Some x \<Rightarrow> if x \<noteq> [] then [x] else []) s_ids)))
                           else None)))))"

text \<open>
  \<^verbatim>\<open>[(i, s) for (i, s) in candidates if store[i].get("section_id") in allowed_sections]\<close>
\<close>

definition filter_by_sections ::
  "chunk list \<Rightarrow> string set \<Rightarrow> (int \<times> real) list \<Rightarrow> error + (int \<times> real) list" where
  "filter_by_sections store allowed cands =
     bind_err (map_err (\<lambda>(i, s). py_get store i) cands) (\<lambda>items.
       Inr (map fst (filter (\<lambda>(c, item). case c_section_id item of
                                            None \<Rightarrow> False
                                          | Some sid \<Rightarrow> sid \<in> allowed) (zip cands items))))"

text \<open>
  The candidate pool of \<^verbatim>\<open>search_advanced\<close> (lines 238 to 242): the filter applies
  when the allowed-set is there and not empty, and its result is kept when it has at
  least \<^verbatim>\<open>max(top_k * 2, mmr_candidates)\<close> entries.
\<close>

definition choose_candidates ::
  "int \<Rightarrow> int \<Rightarrow> chunk list \<Rightarrow> string set option \<Rightarrow> (int \<times> real) list \<Rightarrow> error + (int \<times> real) list" where
  "choose_candidates top_k mmr_candidates store allowed cands =
     (case allowed of
        None \<Rightarrow> Inr cands
      | Some S \<Rightarrow>
          if S = {} then Inr cands
          else bind_err (filter_by_sections store S cands) (\<lambda>filtered.
                 Inr (if max (top_k * 2) mmr_candidates \<le> int (length filtered) then filtered
                      else cands)))"

definition search_advanced ::
  "settings \<Rightarrow> provider \<Rightarrow> reranker \<Rightarrow> vector_store \<Rightarrow> fs_state \<Rightarrow>
   string \<Rightarrow> int \<Rightarrow> real \<Rightarrow> int \<Rightarrow> string option \<Rightarrow> bool option \<Rightarrow> int option \<Rightarrow>
   vector_store \<times> (error + search_result list)" where
  "search_advanced cfg pr rr vs fs query top_k mmr_lambda mmr_candidates hyde
     use_hierarchical section_top_k =
     (case ensure_loaded vs fs of
        Inl e \<Rightarrow> (vs, Inl e)
      | Inr vs1 \<Rightarrow>
          (vs1,
           case vs_index vs1 of
             None \<Rightarrow> Inl AssertionError
           | Some ix \<Rightarrow>
               let use_h = (case use_hierarchical of
                              None \<Rightarrow> HIERARCHICAL_RETRIEVAL cfg | Some b \<Rightarrow> b);
                   sec_k = (case section_top_k of None \<Rightarrow> SECTION_TOP_K cfg | Some k \<Rightarrow> k)
               in
               bind_err (query_vec pr query hyde) (\<lambda>q_vec.
               bind_err (index_search ix (hd q_vec)
                           (request_k_advanced top_k mmr_candidates ix)) (\<lambda>raw.
               bind_err (load_store vs1 fs) (\<lambda>store.
               bind_err (allowed_sections use_h sec_k vs1 fs (hd q_vec)) (\<lambda>allowed.
               bind_err (choose_candidates top_k mmr_candidates store allowed
                           (drop_sentinel raw)) (\<lambda>cands.
               select_results cfg pr rr query top_k mmr_lambda (hd q_vec) store cands)))))))"

section \<open>Building the index\<close>

text \<open>
  \<^verbatim>\<open>VectorStore.build\<close>. The result is the storage directory after the call and
  either the error raised or the dictionary returned (the number of embeddings and the
  dimension). Every write goes to the final path of its file, in the order of the source:
  the chunk index, the chunk store, then (when there are sections) the section index and
  the section store, then the metadata.
\<close>

record build_info =
  embeddings :: nat
  dim_out :: nat

definition load_sections :: "fs_state \<Rightarrow> section_rec list" where
  "load_sections fs = (case sections_file fs of None \<Rightarrow> [] | Some ss \<Rightarrow> ss)"

text \<open>
  The update of the metadata. \<^verbatim>\<open>os.path.abspath\<close> depends on the working directory of
  the process: it is the input \<open>abspath\<close>.
\<close>

definition update_meta ::
  "(string \<Rightarrow> string) \<Rightarrow> settings \<Rightarrow> vector_store \<Rightarrow> nat \<Rightarrow> section_rec list \<Rightarrow>
   (string \<rightharpoonup> jval) \<Rightarrow> (string \<rightharpoonup> jval)" where
  "update_meta abspath cfg vs n_chunks sections meta =
     meta ++ map_of
       [(''embeddings'', JInt (int n_chunks)),
        (''embedding_model'', JStr (EMBEDDING_MODEL_NAME cfg)),
        (''faiss_index'', JStr (abspath (index_path vs))),
        (''faiss_index_sections'',
           if sections \<noteq> [] then JStr (abspath (s_index_path vs)) else JNull),
        (''sections_embedded'', JInt (int (length sections)))]"

definition write_meta ::
  "(string \<Rightarrow> string) \<Rightarrow> settings \<Rightarrow> vector_store \<Rightarrow> nat \<Rightarrow> section_rec list \<Rightarrow>
   fs_state \<Rightarrow> fs_state" where
  "write_meta abspath cfg vs n_chunks sections fs =
     fs\<lparr>meta_file := Some (update_meta abspath cfg vs n_chunks sections
                            (case meta_file fs of None \<Rightarrow> Map.empty | Some m \<Rightarrow> m))\<rparr>"

definition build_sections_index ::
  "provider \<Rightarrow> vector_store \<Rightarrow> section_rec list \<Rightarrow> fs_state \<Rightarrow> fs_state \<times> (error + unit)" where
  "build_sections_index pr vs sections fs =
     (if sections \<noteq> [] then
        (case encode pr 1 (map s_text sections) of
           Inl e \<Rightarrow> (fs, Inl e)
         | Inr s_emb \<Rightarrow>
             (case index_build (vs_dim vs) (normalize_rows s_emb) of
                Inl e \<Rightarrow> (fs, Inl e)
              | Inr s_index \<Rightarrow>
                  (fs\<lparr>s_index_file := Some s_index, s_store_file := Some sections\<rparr>, Inr ())))
      else (fs, Inr ()))"

definition build ::
  "(string \<Rightarrow> string) \<Rightarrow> settings \<Rightarrow> provider \<Rightarrow> vector_store \<Rightarrow> fs_state \<Rightarrow>
   fs_state \<times> (error + build_info)" where
  "build abspath cfg pr vs fs =
     (case chunks_file fs of
        None \<Rightarrow> (fs, Inl (FileNotFoundError chunks_missing))
      | Some chunks \<Rightarrow>
          (case encode pr 0 (map c_text chunks) of
             Inl e \<Rightarrow> (fs, Inl e)
           | Inr emb \<Rightarrow>
               (case index_build (vs_dim vs) (normalize_rows emb) of
                  Inl e \<Rightarrow> (fs, Inl e)
                | Inr ix \<Rightarrow>
                    let fs1 = fs\<lparr>index_file := Some ix\<rparr>;
                        fs2 = fs1\<lparr>store_file := Some chunks\<rparr>;
                        sections = load_sections fs2
                    in (case build_sections_index pr vs sections fs2 of
                          (fs3, Inl e) \<Rightarrow> (fs3, Inl e)
                        | (fs3, Inr u) \<Rightarrow>
                            (write_meta abspath cfg vs (length chunks) sections fs3,
                             Inr \<lparr> embeddings = length chunks, dim_out = vs_dim vs \<rparr>)))))"

section \<open>The background indexer\<close>

text \<open>
  \<^verbatim>\<open>Indexer\<close> of \<^verbatim>\<open>backend/app/indexer.py\<close>. The messages are the literal
  templates of the source, the clock readings of \<^verbatim>\<open>time.time()\<close> are inputs.
\<close>

datatype msg =
    NoMessage
  | Starting
  | Parsing
  | Parsed int int
  | BuildingVectors
  | IndexReady

record indexer =
  status :: string
  progress :: int
  message :: msg
  started_at :: "real option"
  ended_at :: "real option"
  last_error :: "error option"

definition set_progress :: "int \<Rightarrow> msg \<Rightarrow> indexer \<Rightarrow> indexer" where
  "set_progress pct m ixr = ixr\<lparr>progress := max 0 (min 100 pct), message := m\<rparr>"

record ingest_info =
  pages :: int
  chunks :: int

text \<open>
  A Python call binds its arguments before the body runs: a keyword that is not a
  parameter of the callee raises \<^verbatim>\<open>TypeError\<close>. The signature of \<^verbatim>\<open>build\<close> is
  \<^verbatim>\<open>def build(self)\<close>, with no keyword parameter.
\<close>

definition build_params :: "string list" where
  "build_params = []"

definition call_build ::
  "string list \<Rightarrow> (string \<Rightarrow> string) \<Rightarrow> settings \<Rightarrow> provider \<Rightarrow> vector_store \<Rightarrow> fs_state \<Rightarrow>
   fs_state \<times> (error + build_info)" where
  "call_build kwargs abspath cfg pr vs fs =
     (if set kwargs \<subseteq> set build_params then build abspath cfg pr vs fs
      else (fs, Inl TypeError))"

text \<open>The handler \<^verbatim>\<open>except Exception as e\<close> of \<^verbatim>\<open>_run\<close>.\<close>

definition on_exception :: "error \<Rightarrow> real \<Rightarrow> indexer \<Rightarrow> indexer" where
  "on_exception e t ixr = ixr\<lparr>status := ''error'', last_error := Some e, ended_at := Some t\<rparr>"

text \<open>
  \<^verbatim>\<open>Indexer._run\<close>. The ingestion step and the constructor of \<^verbatim>\<open>VectorStore\<close>
  (which loads the embedding model) are inputs: each either raises or returns.
\<close>

definition run ::
  "(string \<Rightarrow> string) \<Rightarrow> settings \<Rightarrow> provider \<Rightarrow>
   (string \<Rightarrow> fs_state \<Rightarrow> fs_state \<times> (error + ingest_info)) \<Rightarrow>
   (error + vector_store) \<Rightarrow> real \<Rightarrow> real \<Rightarrow> string \<Rightarrow> fs_state \<Rightarrow> indexer \<Rightarrow>
   fs_state \<times> indexer" where
  "run abspath cfg pr ingest_pdf new_store t0 t1 pdf_path fs ixr =
     (let i1 = ixr\<lparr>status := ''indexing'', progress := 1, message := Starting,
                   started_at := Some t0, ended_at := None, last_error := None\<rparr>;
          i2 = set_progress 10 Parsing i1
      in case ingest_pdf pdf_path fs of
           (fs1, Inl e) \<Rightarrow> (fs1, on_exception e t1 i2)
         | (fs1, Inr info) \<Rightarrow>
             let i3 = set_progress 55 (Parsed (pages info) (chunks info)) i2
             in (case new_store of
                   Inl e \<Rightarrow> (fs1, on_exception e t1 i3)
                 | Inr vs \<Rightarrow>
                     let i4 = set_progress 56 BuildingVectors i3
                     in (case call_build [''progress_cb''] abspath cfg pr vs fs1 of
                           (fs2, Inl e) \<Rightarrow> (fs2, on_exception e t1 i4)
                         | (fs2, Inr info) \<Rightarrow>
                             (fs2, (set_progress 100 IndexReady i4)
                                     \<lparr>status := ''ready'', ended_at := Some t1\<rparr>))))"

text \<open>
  \<^verbatim>\<open>Indexer.start\<close>, up to the point where the thread is started: the indexer after
  the call, and whether a thread running \<^verbatim>\<open>_run\<close> was started. When the status is
  \<^verbatim>\<open>indexing\<close> and the thread is alive, the source calls \<^verbatim>\<open>status_json\<close> while it
  holds \<^verbatim>\<open>self._lock\<close>; \<^verbatim>\<open>status_json\<close> acquires the same lock, which is not
  reentrant, and the call never returns: the value is \<open>None\<close>.
\<close>

definition start :: "bool \<Rightarrow> fs_state \<Rightarrow> indexer \<Rightarrow> (indexer \<times> bool) option" where
  "start thread_alive fs ixr =
     (if status ixr = ''indexing'' \<and> thread_alive then None
      else if index_file fs \<noteq> None then
        Some (ixr\<lparr>status := ''ready'', progress := 100, message := IndexReady\<rparr>, False)
      else Some (ixr, True))"

section \<open>Default arguments and the scenario of the specification\<close>

text \<open>The defaults of \<^verbatim>\<open>search\<close> and \<^verbatim>\<open>search_advanced\<close>.\<close>

definition default_top_k :: int where
  "default_top_k = 5"

definition default_mmr_lambda :: real where
  "default_mmr_lambda = 1 / 2"

definition default_mmr_candidates :: int where
  "default_mmr_candidates = 24"

text \<open>
  The scenario of section 8: three chunks whose vectors are \<open>[1,0]\<close>, \<open>[0,1]\<close> and
  \<open>[0.7,0.7]\<close>, in this order of rows, and a query whose vector is \<open>[1,0]\<close>. The
  provider maps the text of each chunk to its vector, the index holds the three vectors
  as they are, the store holds the three chunks, and the rerank is off.
\<close>

definition chunk_a :: chunk where
  "chunk_a = \<lparr> c_id = ''chunk_a'', c_text = ''a'', c_section_id = None,
               c_section_title = None, c_page_start = None, c_page_end = None \<rparr>"

definition chunk_b :: chunk where
  "chunk_b = \<lparr> c_id = ''chunk_b'', c_text = ''b'', c_section_id = None,
               c_section_title = None, c_page_start = None, c_page_end = None \<rparr>"

definition chunk_c :: chunk where
  "chunk_c = \<lparr> c_id = ''chunk_c'', c_text = ''c'', c_section_id = None,
               c_section_title = None, c_page_start = None, c_page_end = None \<rparr>"

definition scen_embed :: "string \<Rightarrow> vec" where
  "scen_embed t = (if t = ''b'' then [0, 1] else if t = ''c'' then [7 / 10, 7 / 10] else [1, 0])"

definition scen_provider :: provider where
  "scen_provider n = Some scen_embed"

definition scen_index :: faiss_index where
  "scen_index = \<lparr> ix_d = 2, ix_rows = [[1, 0], [0, 1], [7 / 10, 7 / 10]] \<rparr>"

definition scen_fs :: fs_state where
  "scen_fs = \<lparr> chunks_file = None, sections_file = None, index_file = Some scen_index,
               store_file = Some [chunk_a, chunk_b, chunk_c], s_index_file = None,
               s_store_file = None, meta_file = None \<rparr>"

definition scen_vs :: vector_store where
  "scen_vs = \<lparr> vs_storage_dir = ''storage'', vs_dim = 2, vs_index = None, vs_s_index = None \<rparr>"

definition scen_cfg :: settings where
  "scen_cfg = \<lparr> EMBEDDING_MODEL_NAME = ''model'', RERANK = False,
                HIERARCHICAL_RETRIEVAL = False, SECTION_TOP_K = 3 \<rparr>"

definition no_reranker :: reranker where
  "no_reranker pairs = None"

text \<open>
  What the scenario gives the selection loop: the normalized query, the rows returned by
  the index in descending order of inner product, and the normalized vectors of their
  texts.
\<close>

definition scen_q :: vec where
  "scen_q = [10000000000 / 10000000001, 0]"

definition scen_cands :: "(int \<times> real) list" where
  "scen_cands = [(0, 10000000000 / 10000000001), (2, 7000000000 / 10000000001), (1, 0)]"

definition scen_vecs :: "vec list" where
  "scen_vecs = normalize_rows [scen_embed ''a'', scen_embed ''c'', scen_embed ''b'']"

definition result_a :: search_result where
  "result_a = \<lparr> r_id = ''chunk_a'', r_text = ''a'', r_section_title = None,
                r_page_start = None, r_page_end = None,
                r_score = 10000000000 / 10000000001, r_rerank_score = None \<rparr>"

definition result_c :: search_result where
  "result_c = \<lparr> r_id = ''chunk_c'', r_text = ''c'', r_section_title = None,
                r_page_start = None, r_page_end = None,
                r_score = 7000000000 / 10000000001, r_rerank_score = None \<rparr>"

text \<open>
  Inputs of the other closed theorems: an index of a hundred rows; an index of dimension
  three beside a provider of dimension two; a storage directory before a rebuild, with
  two chunks and one section to index and the files of an earlier build; a provider whose
  second call raises and a provider whose every call raises; an indexer as its
  constructor leaves it, a storage directory without index file and one without store
  file; the working directory of the process, as \<^verbatim>\<open>os.path.abspath\<close> sees it.
\<close>

definition big_index :: faiss_index where
  "big_index = \<lparr> ix_d = 2, ix_rows = replicate 100 [1, 0] \<rparr>"

definition index_dim3 :: faiss_index where
  "index_dim3 = \<lparr> ix_d = 3, ix_rows = [[1, 0, 0]] \<rparr>"

definition fs_dim3 :: fs_state where
  "fs_dim3 = scen_fs\<lparr>index_file := Some index_dim3\<rparr>"

definition section_x :: section_rec where
  "section_x = \<lparr> s_id = Some ''s1'', s_text = ''c'' \<rparr>"

definition rebuild_fs :: fs_state where
  "rebuild_fs = \<lparr> chunks_file = Some [chunk_a, chunk_b], sections_file = Some [section_x],
                  index_file = Some scen_index, store_file = Some [chunk_a, chunk_b, chunk_c],
                  s_index_file = None, s_store_file = None, meta_file = None \<rparr>"

definition fail_on_sections :: provider where
  "fail_on_sections n = (if n = 0 then Some scen_embed else None)"

definition fail_always :: provider where
  "fail_always n = None"

definition rebuilt_index :: faiss_index where
  "rebuilt_index = \<lparr> ix_d = 2, ix_rows = [[10000000000 / 10000000001, 0], [0, 10000000000 / 10000000001]] \<rparr>"

definition chunk_s1 :: chunk where
  "chunk_s1 = chunk_a\<lparr>c_section_id := Some ''s1''\<rparr>"

definition chunk_s2 :: chunk where
  "chunk_s2 = chunk_b\<lparr>c_section_id := Some ''s2''\<rparr>"

definition idle_indexer :: indexer where
  "idle_indexer = \<lparr> status = ''idle'', progress = 0, message = NoMessage, started_at = None,
                    ended_at = None, last_error = None \<rparr>"

definition no_index_fs :: fs_state where
  "no_index_fs = scen_fs\<lparr>index_file := None\<rparr>"

definition ingest_ok :: "string \<Rightarrow> fs_state \<Rightarrow> fs_state \<times> (error + ingest_info)" where
  "ingest_ok pdf_path fs = (fs, Inr \<lparr> pages = 1, chunks = 3 \<rparr>)"

definition no_store_fs :: fs_state where
  "no_store_fs = scen_fs\<lparr>store_file := None\<rparr>"

definition scen_abspath :: "string \<Rightarrow> string" where
  "scen_abspath path = ''/srv/app/'' @ path"

text \<open>
  A store whose three chunks belong to the sections \<open>s1\<close>, \<open>s2\<close> and \<open>s2\<close>, beside
  the index of the scenario, with a section index of two rows and its section store; the
  normalized query vector of the text \<open>b\<close> and the rows that the index returns for it.
\<close>

definition chunk_s2c :: chunk where
  "chunk_s2c = chunk_c\<lparr>c_section_id := Some ''s2''\<rparr>"

definition sections_store :: "chunk list" where
  "sections_store = [chunk_s1, chunk_s2, chunk_s2c]"

definition section_s1 :: section_rec where
  "section_s1 = \<lparr> s_id = Some ''s1'', s_text = ''a'' \<rparr>"

definition section_s2 :: section_rec where
  "section_s2 = \<lparr> s_id = Some ''s2'', s_text = ''b'' \<rparr>"

definition sec_index :: faiss_index where
  "sec_index = \<lparr> ix_d = 2, ix_rows = [[1, 0], [0, 1]] \<rparr>"

definition sections_fs :: fs_state where
  "sections_fs = \<lparr> chunks_file = None, sections_file = None, index_file = Some scen_index,
                   store_file = Some sections_store, s_index_file = Some sec_index,
                   s_store_file = Some [section_s1, section_s2], meta_file = None \<rparr>"

definition sections_vs :: vector_store where
  "sections_vs = scen_vs\<lparr>vs_index := Some scen_index, vs_s_index := Some sec_index\<rparr>"

definition scen_q_b :: vec where
  "scen_q_b = [0, 10000000000 / 10000000001]"

definition scen_cands_b :: "(int \<times> real) list" where
  "scen_cands_b = [(1, 10000000000 / 10000000001), (2, 7000000000 / 10000000001), (0, 0)]"








section \<open>Invariants of the selection loop\<close>

text \<open>
  The three pools have one entry for each remaining candidate, and every selected item
  has its score.
\<close>

definition pools_aligned :: "mmr_state \<Rightarrow> bool" where
  "pools_aligned st \<longleftrightarrow>
     length (cand_idxs st) = length (candidates st) \<and>
     length (cand_vecs st) = length (candidates st) \<and>
     length (selected_scores st) = length (selected st)"

text \<open>
  \<^verbatim>\<open>cand_idxs\<close> lists the row indices of \<^verbatim>\<open>candidates\<close>, as its initial value
  does.
\<close>

definition pools_linked :: "mmr_state \<Rightarrow> bool" where
  "pools_linked st \<longleftrightarrow> pools_aligned st \<and> cand_idxs st = map fst (candidates st)"


section \<open>Properties of the helpers\<close>

lemma np_argmax_less: "xs \<noteq> [] \<Longrightarrow> np_argmax xs < length xs"
  by (induction xs rule: np_argmax.induct) (auto simp: Let_def)

lemma length_delete_at: "p < length xs \<Longrightarrow> length (delete_at p xs) = length xs - 1"
  by (simp add: delete_at_def)

lemma l2norm_nonneg: "0 \<le> l2norm v"
  unfolding l2norm_def by (rule real_sqrt_ge_zero) (induction v, auto)

lemma l2norm_e1: "l2norm [1, 0] = 1"
  by (simp add: l2norm_def)

lemma l2norm_e2: "l2norm [0, 1] = 1"
  by (simp add: l2norm_def)

section \<open>The number of picks\<close>

lemma length_diversity: "pools_aligned st \<Longrightarrow> length (diversity st) = length (candidates st)"
  by (simp add: diversity_def Let_def pools_aligned_def)

lemma length_mmr_scores:
  "pools_aligned st \<Longrightarrow> length (mmr_scores lam q st) = length (candidates st)"
  by (simp add: mmr_scores_def length_diversity) (simp add: pools_aligned_def)

lemma chosen_pos_less:
  assumes al: "pools_aligned st" and ne: "candidates st \<noteq> []"
  shows "chosen_pos lam q st < length (candidates st)"
proof -
  have "mmr_scores lam q st \<noteq> []"
    using length_mmr_scores[OF al, of lam q] ne by (metis length_0_conv)
  then have "np_argmax (mmr_scores lam q st) < length (candidates st)"
    using np_argmax_less[of "mmr_scores lam q st"] length_mmr_scores[OF al, of lam q] by simp
  moreover have "np_argmax (map snd (candidates st)) < length (candidates st)"
    using np_argmax_less[of "map snd (candidates st)"] ne by simp
  ultimately show ?thesis by (simp add: chosen_pos_def)
qed

lemma mmr_step_aligned:
  "pools_aligned st \<Longrightarrow> candidates st \<noteq> [] \<Longrightarrow> pools_aligned (mmr_step lam q st)"
  using chosen_pos_less[of st lam q]
  by (simp add: mmr_step_def Let_def pools_aligned_def length_delete_at)


lemma mmr_loop_unroll:
  "mmr_continue top_k st \<Longrightarrow> mmr_loop top_k lam q st = mmr_loop top_k lam q (mmr_step lam q st)"
  "\<not> mmr_continue top_k st \<Longrightarrow> mmr_loop top_k lam q st = st"
  by (subst mmr_loop.simps, simp)+

lemma mmr_continue_nonempty: "mmr_continue top_k st \<Longrightarrow> candidates st \<noteq> []"
  by (auto simp: mmr_continue_def)





lemma mmr_init_aligned: "length vecs = length cands \<Longrightarrow> pools_aligned (mmr_init cands vecs)"
  by (simp add: pools_aligned_def mmr_init_def)



section \<open>The scenario, evaluated\<close>

lemma scen_encode: "encode scen_provider n texts = Inr (map scen_embed texts)"
  by (simp add: encode_def scen_provider_def)

lemma scen_query: "normalize_rows [scen_embed ''q''] = [scen_q]"
  by (simp add: normalize_rows_def scen_embed_def l2norm_e1 scen_q_def)

lemma scen_raw: "index_search scen_index scen_q 3 = Inr scen_cands"
  by (simp add: index_search_def scen_index_def scen_q_def scen_cands_def dot_def
      enumerate_eq_zip upt_rec[of 0] Let_def)

lemma scen_request_k: "request_k top_k 24 scen_index = 3"
  by (simp add: request_k_def ntotal_def scen_index_def)

lemma scen_texts: "cand_texts [chunk_a, chunk_b, chunk_c] scen_cands = Inr [''a'', ''c'', ''b'']"
  by (simp add: cand_texts_def scen_cands_def py_get_def bind_err_def
      chunk_a_def chunk_b_def chunk_c_def)

lemma scen_ensure: "ensure_loaded scen_vs scen_fs = Inr (scen_vs\<lparr>vs_index := Some scen_index\<rparr>)"
  by (simp add: ensure_loaded_def scen_vs_def scen_fs_def bind_err_def)

lemma scen_results:
  "build_results [chunk_a, chunk_b, chunk_c]
     [(0, 10000000000 / 10000000001), (2, 7000000000 / 10000000001)] = Inr [result_a, result_c]"
  by (simp add: build_results_def make_result_def py_get_def bind_err_def chunk_a_def
      chunk_b_def chunk_c_def result_a_def result_c_def)

text \<open>
  In the scenario a search with any \<^verbatim>\<open>top_k\<close> and \<^verbatim>\<open>mmr_lambda\<close> returns the
  records of what the loop selects from the three candidates.
\<close>

lemma scen_select_results:
  "select_results scen_cfg scen_provider no_reranker ''q'' top_k lam scen_q
     [chunk_a, chunk_b, chunk_c] scen_cands =
   build_results [chunk_a, chunk_b, chunk_c] (mmr_select top_k lam scen_q scen_cands scen_vecs)"
proof -
  have rr: "apply_rerank scen_cfg no_reranker ''q'' rs = rs" for rs
    by (simp add: apply_rerank_def scen_cfg_def)
  have id: "(case m of Inl e \<Rightarrow> Inl e | Inr r \<Rightarrow> Inr r) = m" for m :: "error + search_result list"
    by (cases m) simp_all
  show ?thesis
    by (simp add: select_results_def scen_encode scen_texts rr id bind_err_def scen_vecs_def)
qed

lemma scen_drop_sentinel: "drop_sentinel scen_cands = scen_cands"
  by (simp add: drop_sentinel_def scen_cands_def)

lemma scen_search:
  "snd (search scen_cfg scen_provider no_reranker scen_vs scen_fs ''q'' top_k lam 24) =
     build_results [chunk_a, chunk_b, chunk_c] (mmr_select top_k lam scen_q scen_cands scen_vecs)"
proof -
  have st: "load_store vs scen_fs = Inr [chunk_a, chunk_b, chunk_c]" for vs
    by (simp add: load_store_def scen_fs_def)
  show ?thesis
    unfolding search_def scen_ensure
    by (simp add: scen_encode scen_query scen_request_k scen_raw st scen_drop_sentinel
        scen_select_results bind_err_def)
qed

lemmas mmr_eval = mmr_select_def mmr_init_def mmr_loop.simps mmr_continue_def
  mmr_step_def chosen_pos_def chosen_global_idx_def mmr_scores_def diversity_def
  selected_vecs_def delete_at_def normalize_rows_def Let_def

lemma scen_select_lambda0:
  "mmr_select 2 0 scen_q scen_cands scen_vecs =
     [(0, 10000000000 / 10000000001), (2, 7000000000 / 10000000001)]"
  by (simp add: mmr_eval scen_cands_def scen_vecs_def scen_q_def)

lemma scen_select_top3:
  "mmr_select 3 (1 / 2) scen_q scen_cands scen_vecs =
     [(0, 10000000000 / 10000000001), (2, 7000000000 / 10000000001)]"
  apply (simp add: mmr_eval scen_cands_def scen_vecs_def scen_q_def scen_embed_def
      l2norm_e1 l2norm_e2 dot_def)
  using l2norm_nonneg[of "[7 / 10, 7 / 10]"]
  apply (simp add: field_simps)
  done


section \<open>The diversity term\<close>

text \<open>
  Every pick is deleted from \<^verbatim>\<open>cand_idxs\<close> and \<^verbatim>\<open>cand_vecs\<close>, and the
  vectors of the selected items are looked up in these pools: when no selected item is
  left in the pool, which is so whenever the row indices are distinct, the diversity is
  zero for every candidate.
\<close>

lemma diversity_zero:
  "set (selected st) \<inter> set (cand_idxs st) = {} \<Longrightarrow>
   diversity st = replicate (length (cand_idxs st)) 0"
proof -
  assume "set (selected st) \<inter> set (cand_idxs st) = {}"
  then have "filter (\<lambda>si. si \<in> set (cand_idxs st)) (selected st) = []"
    by (auto simp: filter_empty_conv)
  then show ?thesis by (simp add: diversity_def selected_vecs_def)
qed

text \<open>
  C1 (the code departs from the claim). Claim: after the first pick, every pick is the
  argmax of
  \<open>lambda * sim(candidate, query) + (1 - lambda) * (1 - max similarity to the selected items)\<close>,
  and in the scenario with \<^verbatim>\<open>top_k = 2\<close> and \<^verbatim>\<open>mmr_lambda = 0.0\<close> the second pick is
  chunk_b. The code returns chunk_a and then chunk_c: the vector of chunk_a has left the
  pool when the second pick is made, the diversity is zero for both remaining chunks,
  both get the score 1, and the first of them in the order of the index wins.
\<close>

theorem C1_second_pick_is_chunk_c:
  "snd (search scen_cfg scen_provider no_reranker scen_vs scen_fs ''q'' 2 0 24) =
     Inr [result_a, result_c]"
  by (simp only: scen_search scen_select_lambda0 scen_results)

text \<open>
  C2 (the code departs from the claim). Claim: the loop returns exactly
  \<open>min(top_k, |initial candidates|)\<close> results. The guard of the loop reads the length of
  \<^verbatim>\<open>candidates\<close>, which shrinks with every pick: from a pool of \<open>n\<close> candidates the
  loop returns \<open>min(top_k, (n + 1) div 2)\<close> results (lemma \<open>mmr_select_length\<close>). In the
  scenario, three candidates and \<^verbatim>\<open>top_k = 3\<close> give two results.
\<close>

theorem C2_three_candidates_two_results:
  "snd (search scen_cfg scen_provider no_reranker scen_vs scen_fs ''q'' 3 (1 / 2) 24) =
     Inr [result_a, result_c]"
  by (simp only: scen_search scen_select_top3 scen_results)

section \<open>The order of the selection\<close>




lemma map_delete_at: "map f (delete_at p xs) = delete_at p (map f xs)"
  by (simp add: delete_at_def take_map drop_map)

lemma set_delete_at: "set (delete_at p xs) \<subseteq> set xs"
  unfolding delete_at_def using set_take_subset[of p xs] set_drop_subset[of "Suc p" xs] by auto




lemma chosen_global_idx_linked:
  assumes "pools_linked st" and "candidates st \<noteq> []"
  shows "chosen_global_idx lam q st = fst (candidates st ! chosen_pos lam q st)"
proof -
  have "chosen_pos lam q st < length (candidates st)"
    using chosen_pos_less assms by (simp add: pools_linked_def)
  then show ?thesis using assms(1) by (simp add: chosen_global_idx_def pools_linked_def)
qed

lemma mmr_step_linked:
  assumes "pools_linked st" and "candidates st \<noteq> []"
  shows "pools_linked (mmr_step lam q st)"
proof -
  have "pools_aligned (mmr_step lam q st)"
    using mmr_step_aligned assms by (simp add: pools_linked_def)
  moreover have "cand_idxs (mmr_step lam q st) = map fst (candidates (mmr_step lam q st))"
    using assms(1) by (simp add: mmr_step_def Let_def pools_linked_def map_delete_at)
  ultimately show ?thesis by (simp add: pools_linked_def)
qed

lemma mmr_step_picked:
  assumes "pools_linked st" and "candidates st \<noteq> []"
  shows "zip (selected (mmr_step lam q st)) (selected_scores (mmr_step lam q st)) =
         zip (selected st) (selected_scores st) @ [candidates st ! chosen_pos lam q st]"
proof -
  have "length (selected st) = length (selected_scores st)"
    using assms(1) by (simp add: pools_linked_def pools_aligned_def)
  then show ?thesis
    using chosen_global_idx_linked[OF assms, of lam q] by (simp add: mmr_step_def Let_def)
qed

lemma mmr_loop_linked: "pools_linked st \<Longrightarrow> pools_linked (mmr_loop top_k lam q st)"
proof (induction top_k lam q st rule: mmr_loop.induct)
  case (1 top_k lam q st)
  show ?case
  proof (cases "mmr_continue top_k st")
    case True
    have "pools_linked (mmr_step lam q st)"
      by (rule mmr_step_linked[OF "1.prems" mmr_continue_nonempty[OF True]])
    then show ?thesis using "1.IH"[OF True] by (simp add: mmr_loop_unroll(1)[OF True])
  next
    case False
    then show ?thesis using "1.prems" by (simp add: mmr_loop_unroll(2))
  qed
qed

text \<open>Whatever the weight, the loop extends the selection by candidates of the pool.\<close>

lemma mmr_loop_extends:
  "pools_linked st \<Longrightarrow>
   \<exists>ys. zip (selected (mmr_loop top_k lam q st)) (selected_scores (mmr_loop top_k lam q st)) =
           zip (selected st) (selected_scores st) @ ys \<and> set ys \<subseteq> set (candidates st)"
proof (induction top_k lam q st rule: mmr_loop.induct)
  case (1 top_k lam q st)
  show ?case
  proof (cases "mmr_continue top_k st")
    case True
    have ne: "candidates st \<noteq> []" by (rule mmr_continue_nonempty[OF True])
    have al: "pools_aligned st" using "1.prems" by (simp add: pools_linked_def)
    let ?st = "mmr_step lam q st"
    have lk: "pools_linked ?st" by (rule mmr_step_linked[OF "1.prems" ne])
    obtain ys where ys: "zip (selected (mmr_loop top_k lam q ?st)) (selected_scores (mmr_loop top_k lam q ?st)) =
           zip (selected ?st) (selected_scores ?st) @ ys" and sub: "set ys \<subseteq> set (candidates ?st)"
      using "1.IH"[OF True lk] by blast
    have p: "chosen_pos lam q st < length (candidates st)" by (rule chosen_pos_less[OF al ne])
    have "set (candidates ?st) \<subseteq> set (candidates st)"
      using set_delete_at[of "chosen_pos lam q st" "candidates st"] by (simp add: mmr_step_def Let_def)
    then have "set (candidates st ! chosen_pos lam q st # ys) \<subseteq> set (candidates st)"
      using sub p by auto
    moreover have "zip (selected (mmr_loop top_k lam q st)) (selected_scores (mmr_loop top_k lam q st)) =
        zip (selected st) (selected_scores st) @ (candidates st ! chosen_pos lam q st # ys)"
      using ys by (simp add: mmr_loop_unroll(1)[OF True] mmr_step_picked[OF "1.prems" ne])
    ultimately show ?thesis by blast
  next
    case False
    then show ?thesis by (simp add: mmr_loop_unroll(2))
  qed
qed

lemma mmr_init_linked: "length vecs = length cands \<Longrightarrow> pools_linked (mmr_init cands vecs)"
  by (simp add: pools_linked_def mmr_init_aligned) (simp add: mmr_init_def)

lemma mmr_select_subset:
  assumes "length vecs = length cands"
  shows "set (mmr_select top_k lam q cands vecs) \<subseteq> set cands"
  using mmr_loop_extends[OF mmr_init_linked[OF assms], of top_k lam q]
  by (auto simp: mmr_select_def Let_def) (auto simp: mmr_init_def)







section \<open>The two searches, step by step\<close>

lemma bind_err_Inr_id: "bind_err m Inr = m"
  by (cases m) (simp_all add: bind_err_def)

lemma ensure_loaded_Inl:
  "ensure_loaded vs fs = Inl e \<longleftrightarrow>
   e = FileNotFoundError index_missing \<and> vs_index vs = None \<and> index_file fs = None"
  by (auto simp: ensure_loaded_def bind_err_def split: option.splits)

lemma ensure_loaded_index:
  "ensure_loaded vs fs = Inr vs1 \<Longrightarrow>
   vs_index vs1 = (case vs_index vs of Some ix \<Rightarrow> Some ix | None \<Rightarrow> index_file fs)"
  by (auto simp: ensure_loaded_def bind_err_def split: option.splits)

lemma ensure_loaded_available:
  assumes "vs_index vs = Some ix \<or> vs_index vs = None \<and> index_file fs = Some ix"
  shows "\<exists>vs1. ensure_loaded vs fs = Inr vs1 \<and> vs_index vs1 = Some ix"
proof -
  have "ensure_loaded vs fs \<noteq> Inl e" for e
    using assms by (auto simp: ensure_loaded_Inl)
  then obtain vs1 where l: "ensure_loaded vs fs = Inr vs1"
    by (cases "ensure_loaded vs fs") auto
  then show ?thesis using ensure_loaded_index[OF l] assms by auto
qed

lemma load_store_loaded: "ensure_loaded vs fs = Inr vs1 \<Longrightarrow> load_store vs1 fs = load_store vs fs"
  by (auto simp: ensure_loaded_def bind_err_def load_store_def store_path_def split: option.splits)

lemma search_unfold:
  assumes "ensure_loaded vs fs = Inr vs1" and "vs_index vs1 = Some ix" and "pr 0 = Some f"
  shows "snd (search cfg pr rr vs fs query top_k lam mc) =
     bind_err (index_search ix (hd (normalize_rows [f query])) (request_k top_k mc ix)) (\<lambda>raw.
     bind_err (load_store vs fs) (\<lambda>store.
       select_results cfg pr rr query top_k lam (hd (normalize_rows [f query])) store
         (drop_sentinel raw)))"
  using assms
  by (simp add: search_def encode_def bind_err_def load_store_loaded Let_def)

lemma search_advanced_unfold:
  assumes "ensure_loaded vs fs = Inr vs1" and "vs_index vs1 = Some ix"
    and "query_vec pr query hyde = Inr qv"
  shows "snd (search_advanced cfg pr rr vs fs query top_k lam mc hyde use_hierarchical section_top_k) =
     bind_err (index_search ix (hd qv) (request_k_advanced top_k mc ix)) (\<lambda>raw.
     bind_err (load_store vs fs) (\<lambda>store.
     bind_err (allowed_sections
                 (case use_hierarchical of None \<Rightarrow> HIERARCHICAL_RETRIEVAL cfg | Some b \<Rightarrow> b)
                 (case section_top_k of None \<Rightarrow> SECTION_TOP_K cfg | Some k \<Rightarrow> k)
                 vs1 fs (hd qv)) (\<lambda>allowed.
     bind_err (choose_candidates top_k mc store allowed (drop_sentinel raw)) (\<lambda>cands.
       select_results cfg pr rr query top_k lam (hd qv) store cands))))"
  using assms
  by (simp add: search_advanced_def bind_err_def load_store_loaded Let_def)

lemma index_search_scored:
  assumes "index_search ix q k = Inr raw"
  shows "\<forall>c \<in> set (drop_sentinel raw).
           \<exists>i < length (ix_rows ix). c = (int i, dot (ix_rows ix ! i) q)"
proof -
  let ?scored = "map (\<lambda>(i, v). (int i, dot v q)) (enumerate 0 (ix_rows ix))"
  have raw: "raw = take (nat k) (sort_key (\<lambda>c. - snd c) ?scored)
               @ replicate (nat k - length (sort_key (\<lambda>c. - snd c) ?scored)) (- 1, flt_lowest)"
    using assms by (auto simp: index_search_def Let_def split: if_splits)
  have sc: "\<exists>i < length (ix_rows ix). c = (int i, dot (ix_rows ix ! i) q)" if "c \<in> set ?scored" for c
    using that by (auto simp: in_set_enumerate_eq)
  have "set (take (nat k) (sort_key (\<lambda>c. - snd c) ?scored)) \<subseteq> set ?scored"
    using set_take_subset[of "nat k" "sort_key (\<lambda>c. - snd c) ?scored"] by simp
  then have "c \<in> set ?scored" if "c \<in> set (drop_sentinel raw)" for c
    using that unfolding raw drop_sentinel_def by (auto simp: case_prod_unfold)
  then show ?thesis using sc by blast
qed

lemma index_search_range:
  assumes "index_search ix q k = Inr raw"
  shows "\<forall>c \<in> set (drop_sentinel raw). 0 \<le> fst c \<and> fst c < int (ntotal ix)"
  using index_search_scored[OF assms] by (fastforce simp: ntotal_def)

lemma py_get_in_range: "0 \<le> i \<Longrightarrow> i < int (length xs) \<Longrightarrow> py_get xs i = Inr (xs ! nat i)"
  by (simp add: py_get_def Let_def)

lemma map_err_in_range:
  "\<forall>c \<in> set cands. 0 \<le> fst c \<and> fst c < int (length store) \<Longrightarrow>
   map_err (\<lambda>(i, s). bind_err (py_get store i) (\<lambda>item. Inr (h item s))) cands =
     Inr (map (\<lambda>c. h (store ! nat (fst c)) (snd c)) cands)"
  by (induction cands) (auto simp: py_get_in_range bind_err_def)

lemma cand_texts_in_range:
  assumes "\<forall>c \<in> set cands. 0 \<le> fst c \<and> fst c < int (length store)"
  shows "cand_texts store cands = Inr (map (\<lambda>c. c_text (store ! nat (fst c))) cands)"
  unfolding cand_texts_def using map_err_in_range[OF assms, of "\<lambda>item s. c_text item"] by simp

lemma build_results_in_range:
  assumes "\<forall>c \<in> set sel. 0 \<le> fst c \<and> fst c < int (length store)"
  shows "build_results store sel =
         Inr (map (\<lambda>c. make_result (store ! nat (fst c)) (snd c)) sel)"
  unfolding build_results_def using map_err_in_range[OF assms, of make_result] by simp

text \<open>
  The candidates embedded again: the normalized embedding of the text of each
  candidate's record.
\<close>

lemma select_results_in_range:
  assumes rng: "\<forall>c \<in> set cands. 0 \<le> fst c \<and> fst c < int (length store)"
    and p1: "pr 1 = Some g"
  shows "select_results cfg pr rr query top_k lam q store cands =
         Inr (apply_rerank cfg rr query
                (map (\<lambda>c. make_result (store ! nat (fst c)) (snd c))
                   (mmr_select top_k lam q cands
                      (normalize_rows (map (\<lambda>c. g (c_text (store ! nat (fst c)))) cands)))))"
proof -
  let ?vecs = "normalize_rows (map (\<lambda>c. g (c_text (store ! nat (fst c)))) cands)"
  have len: "length ?vecs = length cands" by (simp add: normalize_rows_def)
  have "set (mmr_select top_k lam q cands ?vecs) \<subseteq> set cands"
    by (rule mmr_select_subset[OF len])
  then have "\<forall>c \<in> set (mmr_select top_k lam q cands ?vecs). 0 \<le> fst c \<and> fst c < int (length store)"
    using rng by blast
  then have br: "build_results store (mmr_select top_k lam q cands ?vecs) =
      Inr (map (\<lambda>c. make_result (store ! nat (fst c)) (snd c)) (mmr_select top_k lam q cands ?vecs))"
    by (rule build_results_in_range)
  have p1': "pr (Suc 0) = Some g" using p1 by simp
  show ?thesis
    by (simp add: select_results_def cand_texts_in_range[OF rng] encode_def p1' bind_err_def br
        comp_def)
qed

section \<open>The selection with the weight one\<close>











lemma filter_by_sections_in_range:
  assumes "\<forall>c \<in> set cands. 0 \<le> fst c \<and> fst c < int (length store)"
  shows "filter_by_sections store S cands =
         Inr (filter (\<lambda>c. c_section_id (store ! nat (fst c)) \<in> Some ` S) cands)"
proof -
  have m: "map_err (\<lambda>(i, s). py_get store i) cands = Inr (map (\<lambda>c. store ! nat (fst c)) cands)"
    using assms by (induction cands) (auto simp: py_get_in_range)
  have q: "(\<lambda>(c, item). case c_section_id item of None \<Rightarrow> False | Some sid \<Rightarrow> sid \<in> S) =
           (\<lambda>(c :: int \<times> real, item). c_section_id item \<in> Some ` S)"
    by (auto simp: fun_eq_iff split: option.splits)
  have z: "map fst (filter (\<lambda>(c, item). Q item) (zip xs (map h xs))) = filter (\<lambda>c. Q (h c)) xs"
    for Q :: "chunk \<Rightarrow> bool" and h and xs :: "(int \<times> real) list"
    by (induction xs) auto
  show ?thesis
    unfolding filter_by_sections_def m bind_err_def q by (simp add: z)
qed

section \<open>The hierarchical filter\<close>

lemma sections_ensure: "ensure_loaded scen_vs sections_fs = Inr sections_vs"
  by (simp add: ensure_loaded_def scen_vs_def sections_fs_def sections_vs_def bind_err_def)

lemma scen_query_vec: "query_vec scen_provider ''q'' None = Inr [scen_q]"
  by (simp add: query_vec_def encode_query_def scen_encode bind_err_def scen_query)

lemma scen_query_vec_b: "query_vec scen_provider ''b'' None = Inr [scen_q_b]"
  by (simp add: query_vec_def encode_query_def scen_encode bind_err_def normalize_rows_def
      scen_embed_def l2norm_e2 scen_q_b_def)

lemma scen_raw_b: "index_search scen_index scen_q_b 3 = Inr scen_cands_b"
  by (simp add: index_search_def scen_index_def scen_q_b_def scen_cands_b_def dot_def
      enumerate_eq_zip upt_rec[of 0] Let_def)

lemma sections_allowed:
  "allowed_sections True 1 sections_vs sections_fs scen_q = Inr (Some {''s1''})"
  by (simp add: allowed_sections_def sections_vs_def sections_fs_def scen_vs_def
      index_search_def sec_index_def ntotal_def scen_q_def dot_def enumerate_eq_zip
      upt_rec[of 0] Let_def bind_err_def py_get_def section_s1_def section_s2_def)

lemma sections_allowed_b:
  "allowed_sections True 1 sections_vs sections_fs scen_q_b = Inr (Some {''s2''})"
  by (simp add: allowed_sections_def sections_vs_def sections_fs_def scen_vs_def
      index_search_def sec_index_def ntotal_def scen_q_b_def dot_def enumerate_eq_zip
      upt_rec[of 0] Let_def bind_err_def py_get_def section_s1_def section_s2_def)

lemma scen_select_top5:
  "mmr_select 5 (1 / 2) scen_q scen_cands scen_vecs =
     [(0, 10000000000 / 10000000001), (2, 7000000000 / 10000000001)]"
  apply (simp add: mmr_eval scen_cands_def scen_vecs_def scen_q_def scen_embed_def
      l2norm_e1 l2norm_e2 dot_def)
  using l2norm_nonneg[of "[7 / 10, 7 / 10]"]
  apply (simp add: field_simps)
  done

lemma l2norm_e7: "7 / 10 \<le> l2norm [7 / 10, 7 / 10]"
  unfolding l2norm_def by (rule real_le_rsqrt) (simp add: power2_eq_square)

lemma scen_select_b:
  "mmr_select 1 (1 / 2) scen_q_b
     [(1, 10000000000 / 10000000001), (2, 7000000000 / 10000000001)]
     (normalize_rows (map (\<lambda>c. scen_embed (c_text (sections_store ! nat (fst c))))
                        [(1, 10000000000 / 10000000001), (2, 7000000000 / 10000000001)])) =
     [(1, 10000000000 / 10000000001)]"
  using l2norm_e7
  by (simp add: mmr_eval scen_q_b_def scen_embed_def sections_store_def chunk_s1_def
      chunk_s2_def chunk_s2c_def chunk_a_def chunk_b_def chunk_c_def l2norm_e1 l2norm_e2 dot_def)

text \<open>
  C4. In a run of \<^verbatim>\<open>search_advanced\<close> that reaches the hierarchical filter with a
  non-empty allowed-section set (the index is loaded, the query vector is there, the index
  returns its rows, the store has a record for every row, the provider answers for the
  texts of the candidates), the results are the records of the selection made over this
  pool: the unfiltered candidates when the candidates whose \<^verbatim>\<open>section_id\<close> is in the
  allowed-set are fewer than \<^verbatim>\<open>max(top_k * 2, mmr_candidates)\<close>, and only the
  candidates whose \<^verbatim>\<open>section_id\<close> is in the allowed-set otherwise.
\<close>

theorem C4_hierarchical_fallback:
  assumes ld: "ensure_loaded vs fs = Inr vs1" and ix: "vs_index vs1 = Some ix"
    and qv: "query_vec pr query hyde = Inr qv"
    and raw: "index_search ix (hd qv) (request_k_advanced top_k mc ix) = Inr raw"
    and st: "store_file fs = Some store" and n: "ntotal ix \<le> length store"
    and al: "allowed_sections
               (case use_hierarchical of None \<Rightarrow> HIERARCHICAL_RETRIEVAL cfg | Some b \<Rightarrow> b)
               (case section_top_k of None \<Rightarrow> SECTION_TOP_K cfg | Some k \<Rightarrow> k)
               vs1 fs (hd qv) = Inr (Some S)"
    and ne: "S \<noteq> {}"
    and p1: "pr 1 = Some g"
    and pool: "pool = (let cands = drop_sentinel raw;
                           filtered = filter (\<lambda>c. c_section_id (store ! nat (fst c)) \<in> Some ` S) cands
                       in if int (length filtered) < max (top_k * 2) mc then cands else filtered)"
  shows "snd (search_advanced cfg pr rr vs fs query top_k lam mc hyde use_hierarchical section_top_k) =
         Inr (apply_rerank cfg rr query
                (map (\<lambda>c. make_result (store ! nat (fst c)) (snd c))
                   (mmr_select top_k lam (hd qv) pool
                      (normalize_rows (map (\<lambda>c. g (c_text (store ! nat (fst c)))) pool)))))"
proof -
  let ?cands = "drop_sentinel raw"
  have rng: "\<forall>c \<in> set ?cands. 0 \<le> fst c \<and> fst c < int (length store)"
  proof
    fix c assume "c \<in> set ?cands"
    then have "0 \<le> fst c \<and> fst c < int (ntotal ix)" using index_search_range[OF raw] by blast
    then show "0 \<le> fst c \<and> fst c < int (length store)" using n by simp
  qed
  have ls: "load_store vs fs = Inr store" by (simp add: load_store_def st)
  have ch: "choose_candidates top_k mc store (Some S) ?cands = Inr pool"
    using ne unfolding pool
    by (auto simp: choose_candidates_def filter_by_sections_in_range[OF rng] bind_err_def Let_def)
  have sub: "set pool \<subseteq> set ?cands" unfolding pool by (auto simp: Let_def)
  have prng: "\<forall>c \<in> set pool. 0 \<le> fst c \<and> fst c < int (length store)"
    using rng sub by blast
  have "snd (search_advanced cfg pr rr vs fs query top_k lam mc hyde use_hierarchical section_top_k) =
        select_results cfg pr rr query top_k lam (hd qv) store pool"
    unfolding search_advanced_unfold[OF ld ix qv] by (simp add: bind_err_def raw ls al ch)
  then show ?thesis
    using select_results_in_range[where pr = pr and g = g, OF prng p1] by simp
qed

theorem C4_hierarchical_fallback_witness:
  "ensure_loaded scen_vs sections_fs = Inr sections_vs \<and>
   vs_index sections_vs = Some scen_index \<and>
   query_vec scen_provider ''q'' None = Inr [scen_q] \<and>
   index_search scen_index (hd [scen_q]) (request_k_advanced 5 24 scen_index) = Inr scen_cands \<and>
   store_file sections_fs = Some sections_store \<and> ntotal scen_index \<le> length sections_store \<and>
   allowed_sections True 1 sections_vs sections_fs (hd [scen_q]) = Inr (Some {''s1''}) \<and>
   {''s1''} \<noteq> ({} :: string set) \<and> scen_provider 1 = Some scen_embed \<and>
   filter (\<lambda>c. c_section_id (sections_store ! nat (fst c)) \<in> Some ` {''s1''}) scen_cands =
     [(0, 10000000000 / 10000000001)] \<and>
   snd (search_advanced scen_cfg scen_provider no_reranker scen_vs sections_fs ''q'' 5 (1 / 2) 24
          None (Some True) (Some 1)) =
     Inr (map (\<lambda>c. make_result (sections_store ! nat (fst c)) (snd c))
            (mmr_select 5 (1 / 2) scen_q scen_cands
               (normalize_rows (map (\<lambda>c. scen_embed (c_text (sections_store ! nat (fst c))))
                                  scen_cands)))) \<and>
   query_vec scen_provider ''b'' None = Inr [scen_q_b] \<and>
   index_search scen_index (hd [scen_q_b]) (request_k_advanced 1 2 scen_index) = Inr scen_cands_b \<and>
   allowed_sections True 1 sections_vs sections_fs (hd [scen_q_b]) = Inr (Some {''s2''}) \<and>
   snd (search_advanced scen_cfg scen_provider no_reranker scen_vs sections_fs ''b'' 1 (1 / 2) 2
          None (Some True) (Some 1)) =
     Inr (map (\<lambda>c. make_result (sections_store ! nat (fst c)) (snd c))
            (mmr_select 1 (1 / 2) scen_q_b
               [(1, 10000000000 / 10000000001), (2, 7000000000 / 10000000001)]
               (normalize_rows (map (\<lambda>c. scen_embed (c_text (sections_store ! nat (fst c))))
                                  [(1, 10000000000 / 10000000001), (2, 7000000000 / 10000000001)])))) \<and>
   snd (search_advanced scen_cfg scen_provider no_reranker scen_vs sections_fs ''q'' 5 (1 / 2) 24
          None (Some True) (Some 1)) =
     Inr [make_result chunk_s1 (10000000000 / 10000000001),
          make_result chunk_s2c (7000000000 / 10000000001)] \<and>
   snd (search_advanced scen_cfg scen_provider no_reranker scen_vs sections_fs ''b'' 1 (1 / 2) 2
          None (Some True) (Some 1)) =
     Inr [make_result chunk_s2 (10000000000 / 10000000001)]"
proof -
  have ix: "vs_index sections_vs = Some scen_index" by (simp add: sections_vs_def)
  have k1: "request_k_advanced 5 24 scen_index = 3" "request_k_advanced 1 2 scen_index = 3"
    by (simp_all add: request_k_advanced_def ntotal_def scen_index_def)
  have raw1: "index_search scen_index (hd [scen_q]) (request_k_advanced 5 24 scen_index) = Inr scen_cands"
    by (simp add: k1 scen_raw)
  have raw2: "index_search scen_index (hd [scen_q_b]) (request_k_advanced 1 2 scen_index) = Inr scen_cands_b"
    by (simp add: k1 scen_raw_b)
  have st: "store_file sections_fs = Some sections_store" by (simp add: sections_fs_def)
  have n: "ntotal scen_index \<le> length sections_store"
    by (simp add: ntotal_def scen_index_def sections_store_def)
  have al1: "allowed_sections (case Some True of None \<Rightarrow> HIERARCHICAL_RETRIEVAL scen_cfg | Some b \<Rightarrow> b)
      (case Some 1 of None \<Rightarrow> SECTION_TOP_K scen_cfg | Some k \<Rightarrow> k) sections_vs sections_fs (hd [scen_q])
      = Inr (Some {''s1''})"
    by (simp add: sections_allowed)
  have al2: "allowed_sections (case Some True of None \<Rightarrow> HIERARCHICAL_RETRIEVAL scen_cfg | Some b \<Rightarrow> b)
      (case Some 1 of None \<Rightarrow> SECTION_TOP_K scen_cfg | Some k \<Rightarrow> k) sections_vs sections_fs (hd [scen_q_b])
      = Inr (Some {''s2''})"
    by (simp add: sections_allowed_b)
  have ne: "{''s1''} \<noteq> ({} :: string set)" "{''s2''} \<noteq> ({} :: string set)" by simp_all
  have p1: "scen_provider 1 = Some scen_embed" by (simp add: scen_provider_def)
  have f1: "filter (\<lambda>c. c_section_id (sections_store ! nat (fst c)) \<in> Some ` {''s1''}) scen_cands =
     [(0, 10000000000 / 10000000001)]"
    by (simp add: scen_cands_def sections_store_def chunk_s1_def chunk_s2_def chunk_s2c_def
        chunk_a_def chunk_b_def chunk_c_def)
  have f2: "filter (\<lambda>c. c_section_id (sections_store ! nat (fst c)) \<in> Some ` {''s2''}) scen_cands_b =
     [(1, 10000000000 / 10000000001), (2, 7000000000 / 10000000001)]"
    by (simp add: scen_cands_b_def sections_store_def chunk_s1_def chunk_s2_def chunk_s2c_def
        chunk_a_def chunk_b_def chunk_c_def)
  have pool1: "scen_cands = (let cands = drop_sentinel scen_cands;
        filtered = filter (\<lambda>c. c_section_id (sections_store ! nat (fst c)) \<in> Some ` {''s1''}) cands
      in if int (length filtered) < max (5 * 2) 24 then cands else filtered)"
    by (simp only: scen_drop_sentinel Let_def f1) simp
  have ds2: "drop_sentinel scen_cands_b = scen_cands_b"
    by (simp add: drop_sentinel_def scen_cands_b_def)
  have pool2: "[(1, 10000000000 / 10000000001), (2, 7000000000 / 10000000001)] =
      (let cands = drop_sentinel scen_cands_b;
        filtered = filter (\<lambda>c. c_section_id (sections_store ! nat (fst c)) \<in> Some ` {''s2''}) cands
      in if int (length filtered) < max (1 * 2) 2 then cands else filtered)"
    by (simp only: ds2 Let_def f2) simp
  have rr: "apply_rerank scen_cfg no_reranker q rs = rs" for q rs
    by (simp add: apply_rerank_def scen_cfg_def)
  note r1 = C4_hierarchical_fallback[where pr = scen_provider and g = scen_embed
      and cfg = scen_cfg and rr = no_reranker and lam = "1 / 2",
      OF sections_ensure ix scen_query_vec raw1 st n al1 ne(1) p1 pool1]
  note r2 = C4_hierarchical_fallback[where pr = scen_provider and g = scen_embed
      and cfg = scen_cfg and rr = no_reranker and lam = "1 / 2",
      OF sections_ensure ix scen_query_vec_b raw2 st n al2 ne(2) p1 pool2]
  have v1: "normalize_rows (map (\<lambda>c. scen_embed (c_text (sections_store ! nat (fst c)))) scen_cands)
      = scen_vecs"
    by (simp add: scen_cands_def sections_store_def chunk_s1_def chunk_s2_def chunk_s2c_def
        chunk_a_def chunk_b_def chunk_c_def scen_vecs_def)
  have m1: "map (\<lambda>c. make_result (sections_store ! nat (fst c)) (snd c))
        [(0, 10000000000 / 10000000001), (2, 7000000000 / 10000000001)] =
      [make_result chunk_s1 (10000000000 / 10000000001),
       make_result chunk_s2c (7000000000 / 10000000001)]"
    by (simp add: sections_store_def)
  have m2: "map (\<lambda>c. make_result (sections_store ! nat (fst c)) (snd c))
        [(1, 10000000000 / 10000000001)] = [make_result chunk_s2 (10000000000 / 10000000001)]"
    by (simp add: sections_store_def)
  have c1: "snd (search_advanced scen_cfg scen_provider no_reranker scen_vs sections_fs ''q'' 5 (1 / 2) 24
          None (Some True) (Some 1)) =
     Inr [make_result chunk_s1 (10000000000 / 10000000001),
          make_result chunk_s2c (7000000000 / 10000000001)]"
    using r1 by (simp only: rr v1 scen_select_top5 m1 list.sel)
  have c2: "snd (search_advanced scen_cfg scen_provider no_reranker scen_vs sections_fs ''b'' 1 (1 / 2) 2
          None (Some True) (Some 1)) =
     Inr [make_result chunk_s2 (10000000000 / 10000000001)]"
    using r2 by (simp only: rr scen_select_b m2 list.sel)
  show ?thesis
    using r1 r2 c1 c2 sections_ensure ix scen_query_vec scen_query_vec_b raw1 raw2 st n
      sections_allowed sections_allowed_b p1 f1
    by (simp add: rr)
qed

section \<open>The candidate retriever\<close>

text \<open>
  The claim C5 gives \<^verbatim>\<open>search_advanced\<close> the same floor as \<^verbatim>\<open>search\<close>. With
  \<^verbatim>\<open>top_k = 1\<close>, the default \<^verbatim>\<open>mmr_candidates = 24\<close> and an index of a hundred
  rows the claim asks for \<open>max(8, 24) = 24\<close> rows; the code asks for \<open>48\<close>.
\<close>

theorem C5_advanced_floor_counterexample:
  "request_k_advanced 1 default_mmr_candidates big_index
     \<noteq> min (max (1 * 8) default_mmr_candidates) (int (ntotal big_index))"
  by (simp add: request_k_advanced_def default_mmr_candidates_def ntotal_def big_index_def)

lemma scen_select_one: "mmr_select 1 1 scen_q scen_cands scen_vecs = [(0, 10000000000 / 10000000001)]"
  by (simp add: mmr_eval scen_cands_def scen_vecs_def scen_q_def)

lemma scen_result_one:
  "build_results [chunk_a, chunk_b, chunk_c] [(0, 10000000000 / 10000000001)] = Inr [result_a]"
  by (simp add: build_results_def make_result_def py_get_def bind_err_def chunk_a_def
      result_a_def)

text \<open>
  C5, amended. Once the index is loaded and the query is embedded, \<^verbatim>\<open>search\<close> asks
  the chunk index for \<open>max(top_k * 4, mmr_candidates)\<close> rows and
  \<^verbatim>\<open>search_advanced\<close> for \<open>max(top_k * 8, 2 * mmr_candidates)\<close> rows, both clamped
  to the size of the index, and what either does next it does with the rows whose index is
  not \<open>-1\<close>. The default of \<^verbatim>\<open>mmr_candidates\<close> is 24: the floor is 24 for
  \<^verbatim>\<open>search\<close> and 48 for \<^verbatim>\<open>search_advanced\<close>.
\<close>

theorem C5_requested_rows:
  assumes ld: "ensure_loaded vs fs = Inr vs1" and ix: "vs_index vs1 = Some ix"
  shows "(pr 0 = Some f \<longrightarrow>
            snd (search cfg pr rr vs fs query top_k lam mc) =
              bind_err (index_search ix (hd (normalize_rows [f query]))
                          (min (max (top_k * 4) mc) (int (ntotal ix)))) (\<lambda>raw.
              bind_err (load_store vs fs) (\<lambda>store.
                select_results cfg pr rr query top_k lam (hd (normalize_rows [f query])) store
                  (filter (\<lambda>c. fst c \<noteq> - 1) raw)))) \<and>
         (query_vec pr query hyde = Inr qv \<longrightarrow>
            snd (search_advanced cfg pr rr vs fs query top_k lam mc hyde use_hierarchical
                   section_top_k) =
              bind_err (index_search ix (hd qv)
                          (min (max (top_k * 8) (2 * mc)) (int (ntotal ix)))) (\<lambda>raw.
              bind_err (load_store vs fs) (\<lambda>store.
              bind_err (allowed_sections
                          (case use_hierarchical of
                             None \<Rightarrow> HIERARCHICAL_RETRIEVAL cfg | Some b \<Rightarrow> b)
                          (case section_top_k of None \<Rightarrow> SECTION_TOP_K cfg | Some k \<Rightarrow> k)
                          vs1 fs (hd qv)) (\<lambda>allowed.
              bind_err (choose_candidates top_k mc store allowed
                          (filter (\<lambda>c. fst c \<noteq> - 1) raw)) (\<lambda>cands.
                select_results cfg pr rr query top_k lam (hd qv) store cands))))) \<and>
         default_mmr_candidates = 24"
proof -
  have ds: "drop_sentinel raw = filter (\<lambda>c. fst c \<noteq> - 1) raw" for raw
    by (simp add: drop_sentinel_def case_prod_unfold)
  have k: "request_k top_k mc ix = min (max (top_k * 4) mc) (int (ntotal ix))"
    "request_k_advanced top_k mc ix = min (max (top_k * 8) (2 * mc)) (int (ntotal ix))"
    by (simp_all add: request_k_def request_k_advanced_def mult.commute)
  show ?thesis
    using search_unfold[where pr = pr and f = f, OF ld ix, of cfg rr query top_k lam mc]
      search_advanced_unfold[OF ld ix, of pr query hyde qv cfg rr top_k lam mc use_hierarchical
        section_top_k]
    by (simp add: ds k default_mmr_candidates_def)
qed

theorem C5_requested_rows_witness:
  "ensure_loaded scen_vs scen_fs = Inr (scen_vs\<lparr>vs_index := Some scen_index\<rparr>) \<and>
   vs_index (scen_vs\<lparr>vs_index := Some scen_index\<rparr>) = Some scen_index \<and>
   scen_provider 0 = Some scen_embed \<and>
   query_vec scen_provider ''q'' None = Inr [scen_q] \<and>
   min (max (1 * 4) 24) (int (ntotal scen_index)) = (3 :: int) \<and>
   min (max (1 * 8) (2 * 24)) (int (ntotal scen_index)) = (3 :: int) \<and>
   snd (search scen_cfg scen_provider no_reranker scen_vs scen_fs ''q'' 1 1 24) = Inr [result_a] \<and>
   snd (search_advanced scen_cfg scen_provider no_reranker scen_vs scen_fs ''q'' 1 1 24
          None (Some False) None) = Inr [result_a]"
proof -
  have ix: "vs_index (scen_vs\<lparr>vs_index := Some scen_index\<rparr>) = Some scen_index" by simp
  have p0: "scen_provider 0 = Some scen_embed" by (simp add: scen_provider_def)
  have k: "min (max (1 * 4) 24) (int (ntotal scen_index)) = (3 :: int)"
    "min (max (1 * 8) (2 * 24)) (int (ntotal scen_index)) = (3 :: int)"
    by (simp_all add: ntotal_def scen_index_def)
  have q: "hd (normalize_rows [scen_embed ''q'']) = scen_q" by (simp add: scen_query)
  have st: "load_store scen_vs scen_fs = Inr [chunk_a, chunk_b, chunk_c]"
    by (simp add: load_store_def scen_fs_def)
  have fl: "filter (\<lambda>c. fst c \<noteq> - 1) scen_cands = scen_cands" by (simp add: scen_cands_def)
  have al: "allowed_sections False k (scen_vs\<lparr>vs_index := Some scen_index\<rparr>) scen_fs v = Inr None"
    for k v
    by (simp add: allowed_sections_def scen_vs_def)
  have ch: "choose_candidates 1 24 store None scen_cands = Inr scen_cands" for store
    by (simp add: choose_candidates_def)
  have sr: "select_results scen_cfg scen_provider no_reranker ''q'' 1 1 scen_q
      [chunk_a, chunk_b, chunk_c] scen_cands = Inr [result_a]"
    by (simp add: scen_select_results scen_select_one scen_result_one)
  note t = C5_requested_rows[where pr = scen_provider and f = scen_embed and cfg = scen_cfg
      and rr = no_reranker and query = "''q''" and top_k = 1 and lam = 1 and mc = 24
      and hyde = None and qv = "[scen_q]" and use_hierarchical = "Some False"
      and section_top_k = None, OF scen_ensure ix]
  have k': "min 24 (int (ntotal scen_index)) = (3 :: int)"
    "min 48 (int (ntotal scen_index)) = (3 :: int)"
    by (simp_all add: ntotal_def scen_index_def)
  have s1: "snd (search scen_cfg scen_provider no_reranker scen_vs scen_fs ''q'' 1 1 24) = Inr [result_a]"
    using t[THEN conjunct1, rule_format, OF p0]
    by (simp add: k' q scen_raw st fl sr bind_err_def)
  have s2: "snd (search_advanced scen_cfg scen_provider no_reranker scen_vs scen_fs ''q'' 1 1 24
          None (Some False) None) = Inr [result_a]"
    using t[THEN conjunct2, THEN conjunct1, rule_format, OF scen_query_vec]
    by (simp add: k' scen_raw st fl al ch sr bind_err_def)
  show ?thesis using scen_ensure ix p0 scen_query_vec k s1 s2 by simp
qed

section \<open>The query vector\<close>

lemma scen_hyde_query:
  "query_vec scen_provider ''q'' (Some ''b'') =
     Inr [[5000000000 / 10000000001, 5000000000 / 10000000001]]"
  by (simp add: query_vec_def encode_query_def scen_encode bind_err_def normalize_rows_def
      scen_embed_def l2norm_e1 l2norm_e2 mean_axis0_def upt_rec[of 0])

text \<open>
  C6 (the code departs from the claim). Claim: the query vector passed to the index is a
  unit vector, also when it is the average of the embeddings of the question and of the
  hypothetical answer. \<^verbatim>\<open>_encode_query\<close> normalizes the two rows and
  \<^verbatim>\<open>search_advanced\<close> averages them without normalizing the mean: for a question
  embedded as \<open>[1,0]\<close> and a hypothetical answer embedded as \<open>[0,1]\<close> the query vector
  is about \<open>[0.5, 0.5]\<close>, of norm about \<open>0.707\<close>.
\<close>

theorem C6_hyde_query_not_unit:
  "query_vec scen_provider ''q'' (Some ''b'') =
     Inr [[5000000000 / 10000000001, 5000000000 / 10000000001]] \<and>
   l2norm [5000000000 / 10000000001, 5000000000 / 10000000001] < 3 / 4"
proof -
  have "l2norm [5000000000 / 10000000001, 5000000000 / 10000000001] < 3 / 4"
    unfolding l2norm_def by (rule real_less_lsqrt) (simp_all add: power2_eq_square)
  then show ?thesis by (simp add: scen_hyde_query)
qed

section \<open>Failures of the build\<close>

lemma rebuild_fail_sections:
  "build abspath scen_cfg fail_on_sections scen_vs rebuild_fs =
     (rebuild_fs\<lparr>index_file := Some rebuilt_index, store_file := Some [chunk_a, chunk_b]\<rparr>,
      Inl EncodeError)"
  by (simp add: build_def rebuild_fs_def fail_on_sections_def encode_def index_build_def
      normalize_rows_def scen_vs_def chunk_a_def chunk_b_def scen_embed_def l2norm_e1 l2norm_e2
      load_sections_def build_sections_index_def section_x_def rebuilt_index_def Let_def)

text \<open>
  The claim C7 says that a failure of the provider at any point of the build leaves
  every artifact of the earlier build as it was. When the provider fails on the section
  texts, the chunk index file and the chunk store file are already overwritten.
\<close>

theorem C7_partial_rebuild_counterexample:
  "snd (build scen_abspath scen_cfg fail_on_sections scen_vs rebuild_fs) = Inl EncodeError \<and>
   index_file (fst (build scen_abspath scen_cfg fail_on_sections scen_vs rebuild_fs))
     \<noteq> index_file rebuild_fs \<and>
   store_file (fst (build scen_abspath scen_cfg fail_on_sections scen_vs rebuild_fs))
     \<noteq> store_file rebuild_fs"
  by (simp add: rebuild_fail_sections)
     (simp add: rebuild_fs_def rebuilt_index_def scen_index_def)

text \<open>
  C7, amended. When the provider fails on the chunk texts, the build aborts with nothing
  written: the storage directory is as before. When it fails on the section texts, the
  build aborts after the chunk index file and the chunk store file have been overwritten
  in place with the new ones; the section index file, the section store file and the
  metadata are as before.
\<close>

theorem C7_provider_failure_during_build:
  "(chunks_file fs = Some cks \<and> pr 0 = None \<longrightarrow>
      build abspath cfg pr vs fs = (fs, Inl EncodeError)) \<and>
   (chunks_file fs = Some cks \<and> pr 0 = Some f \<and>
    index_build (vs_dim vs) (normalize_rows (map f (map c_text cks))) = Inr ix \<and>
    load_sections fs \<noteq> [] \<and> pr 1 = None \<longrightarrow>
      build abspath cfg pr vs fs =
        (fs\<lparr>index_file := Some ix, store_file := Some cks\<rparr>, Inl EncodeError))"
  by (simp add: build_def encode_def load_sections_def build_sections_index_def Let_def)

theorem C7_provider_failure_during_build_witness:
  "chunks_file rebuild_fs = Some [chunk_a, chunk_b] \<and> fail_always 0 = None \<and>
   build scen_abspath scen_cfg fail_always scen_vs rebuild_fs = (rebuild_fs, Inl EncodeError) \<and>
   fail_on_sections 0 = Some scen_embed \<and>
   index_build (vs_dim scen_vs) (normalize_rows (map scen_embed (map c_text [chunk_a, chunk_b])))
     = Inr rebuilt_index \<and>
   load_sections rebuild_fs \<noteq> [] \<and> fail_on_sections 1 = None \<and>
   build scen_abspath scen_cfg fail_on_sections scen_vs rebuild_fs =
     (rebuild_fs\<lparr>index_file := Some rebuilt_index, store_file := Some [chunk_a, chunk_b]\<rparr>,
      Inl EncodeError)"
proof -
  have a: "chunks_file rebuild_fs = Some [chunk_a, chunk_b]" by (simp add: rebuild_fs_def)
  have b: "fail_always 0 = None" by (simp add: fail_always_def)
  have c: "fail_on_sections 0 = Some scen_embed" "fail_on_sections 1 = None"
    by (simp_all add: fail_on_sections_def)
  have d: "index_build (vs_dim scen_vs) (normalize_rows (map scen_embed (map c_text [chunk_a, chunk_b])))
     = Inr rebuilt_index"
    by (simp add: index_build_def normalize_rows_def scen_vs_def chunk_a_def chunk_b_def
        scen_embed_def l2norm_e1 l2norm_e2 rebuilt_index_def)
  have e: "load_sections rebuild_fs \<noteq> []" by (simp add: load_sections_def rebuild_fs_def)
  show ?thesis
    using C7_provider_failure_during_build[of rebuild_fs "[chunk_a, chunk_b]" fail_always
        scen_abspath scen_cfg scen_vs]
      C7_provider_failure_during_build[of rebuild_fs "[chunk_a, chunk_b]" fail_on_sections
        scen_abspath scen_cfg scen_vs scen_embed rebuilt_index] a b c d e
    by simp
qed

section \<open>Loading an index of another dimension\<close>

text \<open>
  The claim C8 says that loading detects an index whose dimension is not the provider's
  and fails. \<^verbatim>\<open>_ensure_loaded\<close> compares no dimension: an index of dimension three
  loads beside a provider of dimension two.
\<close>

theorem C8_mismatch_loads_counterexample:
  "ix_d index_dim3 \<noteq> vs_dim scen_vs \<and>
   ensure_loaded scen_vs fs_dim3 = Inr (scen_vs\<lparr>vs_index := Some index_dim3\<rparr>)"
  by (simp add: ensure_loaded_def scen_vs_def fs_dim3_def scen_fs_def index_dim3_def bind_err_def)

lemma length_normalize_hd: "length (hd (normalize_rows [v])) = length v"
  by (simp add: normalize_rows_def)

text \<open>
  C8, amended. Loading succeeds whatever the dimension of the stored index:
  \<^verbatim>\<open>_ensure_loaded\<close> compares no dimension. A query embedding of another dimension
  makes the search fail afterwards, with the \<^verbatim>\<open>AssertionError\<close> of the index
  library's check of the query against the dimension of the index, and no result is
  returned.
\<close>

theorem C8_no_dimension_check_at_load:
  assumes "vs_index vs = None" and "index_file fs = Some ix"
  shows "(\<exists>vs'. ensure_loaded vs fs = Inr vs' \<and> vs_index vs' = Some ix) \<and>
         (pr 0 = Some f \<longrightarrow> length (f query) \<noteq> ix_d ix \<longrightarrow>
            snd (search cfg pr rr vs fs query top_k lam mc) = Inl AssertionError)"
proof -
  obtain vs' where l: "ensure_loaded vs fs = Inr vs'" and i: "vs_index vs' = Some ix"
    using assms by (auto simp: ensure_loaded_def bind_err_def split: option.splits)
  have "snd (search cfg pr rr vs fs query top_k lam mc) = Inl AssertionError"
    if "pr 0 = Some f" "length (f query) \<noteq> ix_d ix"
    using that l i
    by (simp add: search_def encode_def bind_err_def index_search_def length_normalize_hd)
  then show ?thesis using l i by blast
qed

theorem C8_no_dimension_check_at_load_witness:
  "vs_index scen_vs = None \<and> index_file fs_dim3 = Some index_dim3 \<and>
   scen_provider 0 = Some scen_embed \<and> length (scen_embed ''q'') \<noteq> ix_d index_dim3 \<and>
   (\<exists>vs'. ensure_loaded scen_vs fs_dim3 = Inr vs' \<and> vs_index vs' = Some index_dim3) \<and>
   snd (search scen_cfg scen_provider no_reranker scen_vs fs_dim3 ''q'' 2 1 24) = Inl AssertionError"
proof -
  have a: "vs_index scen_vs = None" by (simp add: scen_vs_def)
  have b: "index_file fs_dim3 = Some index_dim3" by (simp add: fs_dim3_def)
  have c: "scen_provider 0 = Some scen_embed" by (simp add: scen_provider_def)
  have d: "length (scen_embed ''q'') \<noteq> ix_d index_dim3" by (simp add: scen_embed_def index_dim3_def)
  show ?thesis
    using C8_no_dimension_check_at_load[OF a b, of scen_provider scen_embed "''q''" scen_cfg
        no_reranker 2 1 24] a b c d by simp
qed

section \<open>The background build\<close>

text \<open>
  C10. \<^verbatim>\<open>_run\<close> calls \<^verbatim>\<open>vs.build(progress_cb=cb)\<close>, and \<^verbatim>\<open>build\<close> has no such
  parameter: the call raises \<^verbatim>\<open>TypeError\<close>. Whatever the ingestion step and the
  constructor of the store do, \<^verbatim>\<open>_run\<close> ends in the handler, with the status
  \<^verbatim>\<open>error\<close> and never \<^verbatim>\<open>ready\<close>. Without an index file, and unless a build is
  running, \<^verbatim>\<open>start\<close> leaves the status as it is and starts the thread, so the status
  \<^verbatim>\<open>ready\<close> is never reached through the background build.
\<close>

theorem C10_background_build_always_fails:
  "snd (call_build [''progress_cb''] abspath cfg pr vs fs1) = Inl TypeError \<and>
   status (snd (run abspath cfg pr ingest_pdf new_store t0 t1 pdf_path fs ixr)) = ''error'' \<and>
   status (snd (run abspath cfg pr ingest_pdf new_store t0 t1 pdf_path fs ixr)) \<noteq> ''ready'' \<and>
   last_error (snd (run abspath cfg pr ingest_pdf new_store t0 t1 pdf_path fs ixr)) \<noteq> None \<and>
   (index_file fs = None \<longrightarrow> \<not> (status ixr = ''indexing'' \<and> thread_alive) \<longrightarrow>
      start thread_alive fs ixr = Some (ixr, True))"
proof -
  have cb: "call_build [''progress_cb''] abspath cfg pr vs' fs' = (fs', Inl TypeError)" for vs' fs'
    by (simp add: call_build_def build_params_def)
  have "status (snd (run abspath cfg pr ingest_pdf new_store t0 t1 pdf_path fs ixr)) = ''error'' \<and>
        last_error (snd (run abspath cfg pr ingest_pdf new_store t0 t1 pdf_path fs ixr)) \<noteq> None"
    by (simp add: run_def Let_def cb on_exception_def split: prod.splits sum.splits)
  then show ?thesis by (simp add: cb start_def)
qed

theorem C10_background_build_always_fails_witness:
  "index_file no_index_fs = None \<and> \<not> (status idle_indexer = ''indexing'' \<and> False) \<and>
   start False no_index_fs idle_indexer = Some (idle_indexer, True) \<and>
   status (snd (run scen_abspath scen_cfg scen_provider ingest_ok (Inr scen_vs) 0 1 ''manual.pdf''
                  no_index_fs idle_indexer)) = ''error''"
proof -
  have a: "index_file no_index_fs = None" by (simp add: no_index_fs_def)
  have b: "\<not> (status idle_indexer = ''indexing'' \<and> False)" by simp
  show ?thesis
    using C10_background_build_always_fails[where fs = no_index_fs and ixr = idle_indexer
        and thread_alive = False and cfg = scen_cfg and pr = scen_provider
        and ingest_pdf = ingest_ok and new_store = "Inr scen_vs" and ?t0.0 = 0 and ?t1.0 = 1
        and pdf_path = "''manual.pdf''" and vs = scen_vs and ?fs1.0 = no_index_fs
        and abspath = scen_abspath] a b
    by simp
qed

section \<open>Search before and after a build\<close>

lemma bind_err_neq:
  "m \<noteq> Inl e \<Longrightarrow> (\<And>x. m = Inr x \<Longrightarrow> f x \<noteq> Inl e) \<Longrightarrow> bind_err m f \<noteq> Inl e"
  by (cases m) (auto simp: bind_err_def)

lemma map_err_Inl: "map_err f xs = Inl e \<Longrightarrow> \<exists>x \<in> set xs. f x = Inl e"
  by (induction xs) (auto split: sum.splits)

lemma py_get_bind_neq:
  "bind_err (py_get xs i) (\<lambda>item. Inr (h item)) \<noteq> Inl (FileNotFoundError m)"
  by (auto simp: bind_err_def py_get_def Let_def)

lemma cand_texts_neq: "cand_texts store cands \<noteq> Inl (FileNotFoundError m)"
proof
  assume "cand_texts store cands = Inl (FileNotFoundError m)"
  from map_err_Inl[OF this[unfolded cand_texts_def]]
  show False by (auto simp: py_get_bind_neq)
qed

lemma build_results_neq: "build_results store sel \<noteq> Inl (FileNotFoundError m)"
proof
  assume "build_results store sel = Inl (FileNotFoundError m)"
  from map_err_Inl[OF this[unfolded build_results_def]]
  show False by (auto simp: py_get_bind_neq)
qed

lemma select_results_neq:
  "select_results cfg pr rr query top_k lam q store cands \<noteq> Inl (FileNotFoundError m)"
  unfolding select_results_def
  by (intro bind_err_neq cand_texts_neq build_results_neq)
     (auto simp: encode_def split: option.splits)

lemma no_such_file_neq: "no_such_file path \<noteq> index_missing"
  by (simp add: no_such_file_def index_missing_def)

lemma search_after_load:
  assumes "ensure_loaded vs fs = Inr vs1"
  shows "snd (search cfg pr rr vs fs query top_k lam mc) \<noteq> Inl (FileNotFoundError index_missing)"
proof (cases "vs_index vs1")
  case None
  then show ?thesis using assms by (simp add: search_def)
next
  case (Some ix)
  show ?thesis
  proof (cases "pr 0")
    case None
    then show ?thesis using assms Some by (simp add: search_def encode_def bind_err_def)
  next
    case (Some f)
    have "bind_err (index_search ix (hd (normalize_rows [f query])) (request_k top_k mc ix)) (\<lambda>raw.
          bind_err (load_store vs fs) (\<lambda>store.
            select_results cfg pr rr query top_k lam (hd (normalize_rows [f query])) store
              (drop_sentinel raw))) \<noteq> Inl (FileNotFoundError index_missing)"
      by (intro bind_err_neq select_results_neq)
         (auto simp: index_search_def load_store_def no_such_file_neq Let_def
           split: option.splits if_splits)
    then show ?thesis
      using search_unfold[where pr = pr and f = f, OF assms \<open>vs_index vs1 = Some ix\<close> Some]
      by simp
  qed
qed

lemma search_index_missing_iff:
  "snd (search cfg pr rr vs fs query top_k lam mc) = Inl (FileNotFoundError index_missing) \<longleftrightarrow>
   vs_index vs = None \<and> index_file fs = None"
proof (cases "ensure_loaded vs fs")
  case (Inl e)
  then show ?thesis using ensure_loaded_Inl[of vs fs e] by (auto simp: search_def)
next
  case (Inr vs1)
  then have "\<not> (vs_index vs = None \<and> index_file fs = None)"
    using ensure_loaded_Inl[of vs fs "FileNotFoundError index_missing"] by auto
  then show ?thesis using search_after_load[OF Inr] by blast
qed

lemma search_store_missing:
  assumes ix: "vs_index vs = Some ix \<or> vs_index vs = None \<and> index_file fs = Some ix"
    and p0: "pr 0 = Some f"
    and d: "length (f query) = ix_d ix"
    and k: "0 < request_k top_k mc ix"
    and st: "store_file fs = None"
  shows "snd (search cfg pr rr vs fs query top_k lam mc) =
         Inl (FileNotFoundError (no_such_file (store_path vs)))"
proof -
  obtain vs1 where l: "ensure_loaded vs fs = Inr vs1" and i: "vs_index vs1 = Some ix"
    using ensure_loaded_available[OF ix] by blast
  let ?q = "hd (normalize_rows [f query])"
  have lq: "length ?q = ix_d ix" using d by (simp add: normalize_rows_def)
  have "\<exists>raw. index_search ix ?q (request_k top_k mc ix) = Inr raw"
    using lq k by (simp add: index_search_def Let_def)
  then obtain raw where raw: "index_search ix ?q (request_k top_k mc ix) = Inr raw" ..
  have ls: "load_store vs fs = Inl (FileNotFoundError (no_such_file (store_path vs)))"
    by (simp add: load_store_def st)
  show ?thesis
    unfolding search_unfold[where pr = pr and f = f, OF l i p0]
    by (simp add: raw ls bind_err_def)
qed

lemma search_returns:
  assumes ix: "vs_index vs = Some ix \<or> vs_index vs = None \<and> index_file fs = Some ix"
    and p0: "pr 0 = Some f" and p1: "pr 1 = Some g"
    and d: "length (f query) = ix_d ix"
    and k: "0 < request_k top_k mc ix"
    and st: "store_file fs = Some store" and n: "ntotal ix \<le> length store"
  shows "\<exists>rs. snd (search cfg pr rr vs fs query top_k lam mc) = Inr rs"
proof -
  obtain vs1 where l: "ensure_loaded vs fs = Inr vs1" and i: "vs_index vs1 = Some ix"
    using ensure_loaded_available[OF ix] by blast
  let ?q = "hd (normalize_rows [f query])"
  have lq: "length ?q = ix_d ix" using d by (simp add: normalize_rows_def)
  have "\<exists>raw. index_search ix ?q (request_k top_k mc ix) = Inr raw"
    using lq k by (simp add: index_search_def Let_def)
  then obtain raw where raw: "index_search ix ?q (request_k top_k mc ix) = Inr raw" ..
  have rng: "\<forall>c \<in> set (drop_sentinel raw). 0 \<le> fst c \<and> fst c < int (length store)"
  proof
    fix c assume "c \<in> set (drop_sentinel raw)"
    then have "0 \<le> fst c \<and> fst c < int (ntotal ix)" using index_search_range[OF raw] by blast
    then show "0 \<le> fst c \<and> fst c < int (length store)" using n by simp
  qed
  have ls: "load_store vs fs = Inr store" by (simp add: load_store_def st)
  show ?thesis
    unfolding search_unfold[where pr = pr and f = f, OF l i p0]
    by (simp add: raw ls bind_err_def
        select_results_in_range[where pr = pr and g = g and cands = "drop_sentinel raw"
          and store = store, OF rng p1])
qed

text \<open>
  The claim C9 says that with the index file present \<^verbatim>\<open>search\<close> does not fail for
  a missing file and returns a list of results. The index-not-built error of the code is
  a \<^verbatim>\<open>FileNotFoundError\<close>. With the index file present and the store file absent,
  \<^verbatim>\<open>search\<close> loads the index, queries it and then raises \<^verbatim>\<open>FileNotFoundError\<close>
  from \<^verbatim>\<open>_load_store\<close>: the same exception class, and no list is returned.
\<close>

theorem C9_store_missing_counterexample:
  "index_file no_store_fs = Some scen_index \<and>
   snd (search scen_cfg scen_provider no_reranker scen_vs no_store_fs ''q'' 2 1 24) =
     Inl (FileNotFoundError (no_such_file (store_path scen_vs)))"
proof -
  have a: "vs_index scen_vs = Some scen_index \<or>
           vs_index scen_vs = None \<and> index_file no_store_fs = Some scen_index"
    by (simp add: scen_vs_def no_store_fs_def scen_fs_def)
  have b: "scen_provider 0 = Some scen_embed" by (simp add: scen_provider_def)
  have c: "length (scen_embed ''q'') = ix_d scen_index" by (simp add: scen_embed_def scen_index_def)
  have d: "0 < request_k 2 24 scen_index" by (simp add: scen_request_k)
  have e: "store_file no_store_fs = None" by (simp add: no_store_fs_def)
  show ?thesis
    using search_store_missing[where pr = scen_provider and f = scen_embed and vs = scen_vs
        and ix = scen_index and fs = no_store_fs and query = "''q''" and top_k = 2 and mc = 24
        and cfg = scen_cfg and rr = no_reranker and lam = 1, OF a b c d e]
    by (simp add: no_store_fs_def scen_fs_def)
qed

text \<open>
  C9, amended. \<^verbatim>\<open>search\<close> raises the \<^verbatim>\<open>FileNotFoundError\<close> whose message is
  \<^verbatim>\<open>FAISS index missing; build the index first\<close> exactly when no index handle is
  cached and the chunk index file does not exist. With the index available it still raises
  a \<^verbatim>\<open>FileNotFoundError\<close>, with the message of the operating system for the store
  path, when the query is embedded with the dimension of the index, at least one row is
  requested and the store file does not exist. It returns a list of results when the index
  is available, the provider answers for the query and for the texts of the candidates,
  the query embedding has the dimension of the index, at least one row is requested, and
  the store file exists with a record for every row of the index.
\<close>

theorem C9_index_not_built:
  "(snd (search cfg pr rr vs fs query top_k lam mc) = Inl (FileNotFoundError index_missing) \<longleftrightarrow>
      vs_index vs = None \<and> index_file fs = None) \<and>
   ((vs_index vs = Some ix \<or> vs_index vs = None \<and> index_file fs = Some ix) \<and>
    pr 0 = Some f \<and> length (f query) = ix_d ix \<and> 0 < request_k top_k mc ix \<and>
    store_file fs = None \<longrightarrow>
      snd (search cfg pr rr vs fs query top_k lam mc) =
        Inl (FileNotFoundError (no_such_file (store_path vs)))) \<and>
   ((vs_index vs = Some ix \<or> vs_index vs = None \<and> index_file fs = Some ix) \<and>
    pr 0 = Some f \<and> pr 1 = Some g \<and> length (f query) = ix_d ix \<and>
    0 < request_k top_k mc ix \<and> store_file fs = Some store \<and> ntotal ix \<le> length store \<longrightarrow>
      (\<exists>rs. snd (search cfg pr rr vs fs query top_k lam mc) = Inr rs))"
  using search_index_missing_iff[of cfg pr rr vs fs query top_k lam mc]
    search_store_missing[of vs ix fs pr f query top_k mc cfg rr lam]
    search_returns[of vs ix fs pr f g query top_k mc store cfg rr lam]
  by blast

theorem C9_index_not_built_witness:
  "vs_index scen_vs = None \<and> index_file scen_fs = Some scen_index \<and>
   scen_provider 0 = Some scen_embed \<and> scen_provider 1 = Some scen_embed \<and>
   length (scen_embed ''q'') = ix_d scen_index \<and> 0 < request_k 2 24 scen_index \<and>
   store_file scen_fs = Some [chunk_a, chunk_b, chunk_c] \<and>
   ntotal scen_index \<le> length [chunk_a, chunk_b, chunk_c] \<and>
   snd (search scen_cfg scen_provider no_reranker scen_vs scen_fs ''q'' 2 (1 / 2) 24)
     \<noteq> Inl (FileNotFoundError index_missing) \<and>
   (\<exists>rs. snd (search scen_cfg scen_provider no_reranker scen_vs scen_fs ''q'' 2 (1 / 2) 24) = Inr rs) \<and>
   index_file no_index_fs = None \<and>
   snd (search scen_cfg scen_provider no_reranker scen_vs no_index_fs ''q'' 2 (1 / 2) 24)
     = Inl (FileNotFoundError index_missing) \<and>
   index_file no_store_fs = Some scen_index \<and> store_file no_store_fs = None \<and>
   snd (search scen_cfg scen_provider no_reranker scen_vs no_store_fs ''q'' 2 (1 / 2) 24)
     = Inl (FileNotFoundError (no_such_file (store_path scen_vs)))"
proof -
  have a: "vs_index scen_vs = None" "index_file scen_fs = Some scen_index"
    "index_file no_index_fs = None" "index_file no_store_fs = Some scen_index"
    "store_file no_store_fs = None"
    by (simp_all add: scen_vs_def scen_fs_def no_index_fs_def no_store_fs_def)
  have b: "scen_provider 0 = Some scen_embed" "scen_provider 1 = Some scen_embed"
    by (simp_all add: scen_provider_def)
  have c: "length (scen_embed ''q'') = ix_d scen_index" by (simp add: scen_embed_def scen_index_def)
  have d: "0 < request_k 2 24 scen_index" by (simp add: scen_request_k)
  have e: "store_file scen_fs = Some [chunk_a, chunk_b, chunk_c]" by (simp add: scen_fs_def)
  have f: "ntotal scen_index \<le> length [chunk_a, chunk_b, chunk_c]"
    by (simp add: ntotal_def scen_index_def)
  show ?thesis
    using C9_index_not_built[of scen_cfg scen_provider no_reranker scen_vs scen_fs "''q''" 2 "1 / 2" 24
        scen_index scen_embed scen_embed "[chunk_a, chunk_b, chunk_c]"]
      C9_index_not_built[of scen_cfg scen_provider no_reranker scen_vs no_index_fs "''q''" 2 "1 / 2" 24
        scen_index scen_embed scen_embed "[chunk_a, chunk_b, chunk_c]"]
      C9_index_not_built[of scen_cfg scen_provider no_reranker scen_vs no_store_fs "''q''" 2 "1 / 2" 24
        scen_index scen_embed scen_embed "[chunk_a, chunk_b, chunk_c]"]
      a b c d e f
    by simp
qed

end
